theory Spec2Isabelle
  imports Complex_Main "HOL-Library.Sublist"
begin

section \<open>Python strings\<close>

text \<open>
  A Python \<open>str\<close> is a sequence of Unicode code points; \<open>len\<close>, \<open>find\<close> and slicing
  count code points. A code point is an \<open>int\<close> here, and \<open>cps\<close> reads an ASCII literal
  as its code points.
\<close>

type_synonym pystr = "int list"

definition cps :: "string \<Rightarrow> pystr" where
  "cps s = map of_char s"

text \<open>
  \<open>str.lower()\<close>. The table holds Basic Latin and Latin-1, and the two code points
  beyond them whose lower-case form has an ASCII code point in it: U+0130 (LATIN CAPITAL
  LETTER I WITH DOT ABOVE, which becomes the two code points U+0069 U+0307) and U+212A
  (KELVIN SIGN, which becomes U+006B). The lower-case form of every other code point is
  one code point outside ASCII; such a code point is returned as it is, which no test
  against an ASCII keyword can tell from its lower-case form.
\<close>

definition lower_cp :: "int \<Rightarrow> int list" where
  "lower_cp c =
     (if 65 \<le> c \<and> c \<le> 90 then [c + 32]
      else if 192 \<le> c \<and> c \<le> 222 \<and> c \<noteq> 215 then [c + 32]
      else if c = 304 then [105, 775]
      else if c = 8490 then [107]
      else [c])"

definition py_lower :: "pystr \<Rightarrow> pystr" where
  "py_lower text = concat (map lower_cp text)"

text \<open>
  \<open>str.title()\<close> with the ASCII case table (the source applies it to ASCII literals
  only): a letter that follows a cased letter is lower-cased, any other letter is
  upper-cased.
\<close>

definition is_cased :: "int \<Rightarrow> bool" where
  "is_cased c = ((65 \<le> c \<and> c \<le> 90) \<or> (97 \<le> c \<and> c \<le> 122))"

definition to_lower_ascii :: "int \<Rightarrow> int" where
  "to_lower_ascii c = (if 65 \<le> c \<and> c \<le> 90 then c + 32 else c)"

definition to_title_ascii :: "int \<Rightarrow> int" where
  "to_title_ascii c = (if 97 \<le> c \<and> c \<le> 122 then c - 32 else c)"

fun title_from :: "bool \<Rightarrow> pystr \<Rightarrow> pystr" where
  "title_from previous_is_cased [] = []"
| "title_from previous_is_cased (c # s) =
     (if previous_is_cased then to_lower_ascii c else to_title_ascii c)
       # title_from (is_cased c) s"

definition py_title :: "pystr \<Rightarrow> pystr" where
  "py_title s = title_from False s"

text \<open>\<open>t.startswith(p)\<close> and the substring test \<open>p in t\<close>.\<close>

fun startswith :: "pystr \<Rightarrow> pystr \<Rightarrow> bool" where
  "startswith t [] = True"
| "startswith [] (x # p) = False"
| "startswith (c # t) (x # p) = (c = x \<and> startswith t p)"

fun py_in :: "pystr \<Rightarrow> pystr \<Rightarrow> bool" where
  "py_in p [] = (p = [])"
| "py_in p (c # t) = (startswith (c # t) p \<or> py_in p t)"

text \<open>
  \<open>t.find(p)\<close>: the lowest index at which \<open>p\<close> starts in \<open>t\<close>, or \<open>-1\<close>.
  \<open>find_at t p i\<close> scans the rest \<open>t\<close> of the string, which starts at index \<open>i\<close>.
\<close>

fun find_at :: "pystr \<Rightarrow> pystr \<Rightarrow> int \<Rightarrow> int" where
  "find_at [] p i = (if p = [] then i else - 1)"
| "find_at (c # t) p i = (if startswith (c # t) p then i else find_at t p (i + 1))"

definition py_find :: "pystr \<Rightarrow> pystr \<Rightarrow> int" where
  "py_find t p = find_at t p 0"

definition py_len :: "pystr \<Rightarrow> int" where
  "py_len s = int (length s)"

text \<open>
  The slice \<open>s[start:end]\<close>: a negative bound counts from the end, and both bounds are
  clipped to \<open>0 .. len(s)\<close>.
\<close>

definition slice_bound :: "int \<Rightarrow> int \<Rightarrow> nat" where
  "slice_bound n b = nat (min n (if b < 0 then max 0 (b + n) else b))"

definition py_slice :: "pystr \<Rightarrow> int \<Rightarrow> int \<Rightarrow> pystr" where
  "py_slice s start end =
     (let lo = slice_bound (py_len s) start; hi = slice_bound (py_len s) end
      in take (hi - lo) (drop lo s))"

text \<open>\<open>str.strip()\<close> removes the code points for which \<open>str.isspace\<close> holds at both ends.\<close>

definition is_space :: "int \<Rightarrow> bool" where
  "is_space c =
     ((9 \<le> c \<and> c \<le> 13) \<or> (28 \<le> c \<and> c \<le> 32) \<or> c = 133 \<or> c = 160 \<or> c = 5760
      \<or> (8192 \<le> c \<and> c \<le> 8202) \<or> c = 8232 \<or> c = 8233 \<or> c = 8239 \<or> c = 8287
      \<or> c = 12288)"

definition py_strip :: "pystr \<Rightarrow> pystr" where
  "py_strip s = rev (dropWhile is_space (rev (dropWhile is_space s)))"

section \<open>Pattern extraction engine\<close>

subsection \<open>Payer detection\<close>

definition payer_keywords :: "pystr list" where
  "payer_keywords = map cps
     [''united healthcare'', ''unitedhealthcare'', ''uhc'',
      ''anthem'', ''elevance'',
      ''aetna'', ''cvs health'',
      ''kaiser permanente'',
      ''cigna'', ''humana'',
      ''blue cross blue shield'', ''bcbs'',
      ''centene'', ''molina healthcare'']"

text \<open>The \<open>for payer in payer_keywords\<close> loop, left at the first hit.\<close>

fun payer_scan :: "pystr list \<Rightarrow> pystr \<Rightarrow> pystr option" where
  "payer_scan [] text_lower = None"
| "payer_scan (payer # rest) text_lower =
     (if py_in payer text_lower then Some (py_title payer) else payer_scan rest text_lower)"

definition extract_payer_name :: "pystr \<Rightarrow> pystr option" where
  "extract_payer_name text = (let text_lower = py_lower text in payer_scan payer_keywords text_lower)"

subsection \<open>Document-type classification\<close>

definition classify_document_type :: "pystr \<Rightarrow> pystr" where
  "classify_document_type text =
     (let text_lower = py_lower text in
      if py_in (cps ''prior authorization'') text_lower \<or> py_in (cps ''pre-authorization'') text_lower
        then cps ''Prior Authorization Guidelines''
      else if py_in (cps ''claim'') text_lower \<and> py_in (cps ''timely filing'') text_lower
        then cps ''Claims & Timely Filing''
      else if py_in (cps ''appeal'') text_lower
        then cps ''Appeals Process''
      else if py_in (cps ''provider manual'') text_lower
        then cps ''Provider Manual''
      else if py_in (cps ''fee schedule'') text_lower \<or> py_in (cps ''reimbursement'') text_lower
        then cps ''Fee Schedule''
      else if py_in (cps ''credentialing'') text_lower
        then cps ''Credentialing Requirements''
      else cps ''General Policy Document'')"

text \<open>
  The priority table as the specification words it: each rule is a keyword test, either
  "one of these occurs" or "all of these occur", with its category; the first rule that
  holds decides, and no rule gives the default category.
\<close>

datatype keyword_test = Any_of "pystr list" | All_of "pystr list"

fun test_holds :: "keyword_test \<Rightarrow> pystr \<Rightarrow> bool" where
  "test_holds (Any_of ks) t = list_ex (\<lambda>k. sublist k t) ks"
| "test_holds (All_of ks) t = list_all (\<lambda>k. sublist k t) ks"

definition document_type_rules :: "(keyword_test \<times> pystr) list" where
  "document_type_rules =
     [(Any_of [cps ''prior authorization'', cps ''pre-authorization''], cps ''Prior Authorization Guidelines''),
      (All_of [cps ''claim'', cps ''timely filing''], cps ''Claims & Timely Filing''),
      (Any_of [cps ''appeal''], cps ''Appeals Process''),
      (Any_of [cps ''provider manual''], cps ''Provider Manual''),
      (Any_of [cps ''fee schedule'', cps ''reimbursement''], cps ''Fee Schedule''),
      (Any_of [cps ''credentialing''], cps ''Credentialing Requirements'')]"

fun first_rule :: "(keyword_test \<times> pystr) list \<Rightarrow> pystr \<Rightarrow> pystr" where
  "first_rule [] t = cps ''General Policy Document''"
| "first_rule ((test, category) # rules) t =
     (if test_holds test t then category else first_rule rules t)"

definition spec_document_type :: "pystr \<Rightarrow> pystr" where
  "spec_document_type text = first_rule document_type_rules (py_lower text)"

subsection \<open>Context window\<close>

text \<open>
  \<open>_extract_surrounding_text(text, pattern, context_chars=200)\<close>. The index comes from
  \<open>text_lower\<close> and the slice is taken from \<open>text\<close>.
\<close>

definition extract_surrounding_text :: "pystr \<Rightarrow> pystr \<Rightarrow> int \<Rightarrow> pystr" where
  "extract_surrounding_text text pattern context_chars =
     (let pattern_lower = py_lower pattern;
          text_lower = py_lower text;
          idx = py_find text_lower pattern_lower
      in if idx = - 1 then []
         else let start = max 0 (idx - context_chars);
                  end = min (py_len text) (idx + py_len pattern + context_chars)
              in py_strip (py_slice text start end))"

subsection \<open>Rule mining\<close>

text \<open>A detected rule is the dictionary with the keys \<open>type\<close>, \<open>pattern_matched\<close>, \<open>rule_text\<close>.\<close>

record detected_rule =
  rule_type :: pystr
  pattern_matched :: pystr
  rule_text :: pystr

text \<open>The dictionary \<open>rule_patterns\<close>, in insertion order (the order \<open>items()\<close> yields).\<close>

definition rule_patterns :: "(pystr \<times> pystr list) list" where
  "rule_patterns =
     [(cps ''prior_authorization'',
         [cps ''prior authorization required'', cps ''pre-auth required'', cps ''pa required'']),
      (cps ''timely_filing'',
         [cps ''timely filing'', cps ''filing deadline'', cps ''claim submission deadline'']),
      (cps ''appeal_deadline'',
         [cps ''appeal within'', cps ''appeal deadline'', cps ''days to appeal'']),
      (cps ''documentation'',
         [cps ''documentation required'', cps ''medical records required'']),
      (cps ''notification'',
         [cps ''notification required'', cps ''must notify'', cps ''advance notice''])]"

text \<open>The inner loop \<open>for pattern in patterns\<close>; \<open>rules\<close> is the list appended to.\<close>

fun scan_patterns ::
  "pystr \<Rightarrow> pystr \<Rightarrow> pystr \<Rightarrow> pystr list \<Rightarrow> detected_rule list \<Rightarrow> detected_rule list" where
  "scan_patterns text text_lower rtype [] rules = rules"
| "scan_patterns text text_lower rtype (pattern # patterns) rules =
     scan_patterns text text_lower rtype patterns
       (if py_in pattern text_lower
        then rules @ [\<lparr>rule_type = rtype, pattern_matched = pattern,
                        rule_text = extract_surrounding_text text pattern 200\<rparr>]
        else rules)"

text \<open>The outer loop \<open>for rule_type, patterns in rule_patterns.items()\<close>.\<close>

fun scan_rule_types ::
  "pystr \<Rightarrow> pystr \<Rightarrow> (pystr \<times> pystr list) list \<Rightarrow> detected_rule list \<Rightarrow> detected_rule list" where
  "scan_rule_types text text_lower [] rules = rules"
| "scan_rule_types text text_lower ((rtype, patterns) # items) rules =
     scan_rule_types text text_lower items (scan_patterns text text_lower rtype patterns rules)"

definition extract_healthcare_rules :: "pystr \<Rightarrow> detected_rule list" where
  "extract_healthcare_rules text =
     (let rules = []; text_lower = py_lower text
      in scan_rule_types text text_lower rule_patterns rules)"

text \<open>Every (category, trigger phrase) pair of the table, in table order.\<close>

definition rule_pairs :: "(pystr \<times> pystr) list" where
  "rule_pairs = concat (map (\<lambda>(rtype, patterns). map (Pair rtype) patterns) rule_patterns)"

definition rule_key :: "detected_rule \<Rightarrow> pystr \<times> pystr" where
  "rule_key r = (rule_type r, pattern_matched r)"

section \<open>Layout result adapter and document assembly\<close>

text \<open>
  The OCR result is an object of the provider's library. An attribute that the source reads
  directly (\<open>result.pages\<close>, \<open>page.width\<close>, \<open>cell.row_index\<close>) is a field here, with
  \<open>None\<close> as a possible value where the source tests for it. An attribute that the source
  reads through \<open>getattr\<close> or \<open>hasattr\<close> may be missing from the object altogether, or
  be there with the value \<open>None\<close>, or be there with a value: Python tells the three apart,
  and so does \<open>attr\<close>. Floats are passed through and never computed with.
\<close>

datatype 'a attr = Missing | Present "'a option"

text \<open>\<open>getattr(obj, name, default)\<close> and \<open>hasattr(obj, name)\<close>.\<close>

fun getattr :: "'a attr \<Rightarrow> 'a option \<Rightarrow> 'a option" where
  "getattr Missing dflt = dflt"
| "getattr (Present v) dflt = v"

fun hasattr :: "'a attr \<Rightarrow> bool" where
  "hasattr Missing = False"
| "hasattr (Present v) = True"

text \<open>
  \<open>if xs: for x in xs: ...\<close> runs over nothing when \<open>xs\<close> is \<open>None\<close> or empty, and
  over \<open>xs\<close> otherwise.
\<close>

fun items_if_any :: "'a list option \<Rightarrow> 'a list" where
  "items_if_any None = []"
| "items_if_any (Some xs) = xs"

record raw_line =
  line_content :: pystr
  line_confidence :: "real attr"
  line_polygon :: "real list attr"

record raw_page =
  page_page_number :: int
  page_width :: "real option"
  page_height :: "real option"
  page_unit :: "pystr option"
  page_lines :: "raw_line list option"

record raw_region =
  region_page_number :: int

record raw_paragraph =
  para_content :: pystr
  para_role :: "pystr attr"
  para_bounding_regions :: "raw_region list attr"

record raw_cell =
  cell_row_index :: int
  cell_column_index :: int
  cell_content :: pystr
  cell_kind :: "pystr attr"
  cell_row_span :: "int attr"
  cell_column_span :: "int attr"

record raw_table =
  table_row_count :: int
  table_column_count :: int
  table_cells :: "raw_cell list"

record raw_result =
  result_pages :: "raw_page list option"
  result_content :: pystr
  result_paragraphs :: "raw_paragraph list option"
  result_tables :: "raw_table list option"

text \<open>The dictionaries of the output document. A key that is never set is \<open>None\<close>.\<close>

record line_data =
  line_text :: pystr
  confidence :: "real option"
  bounding_box :: "real list option"

record dimensions_data =
  width :: "real option"
  height :: "real option"
  unit_of_measure :: "pystr option"

record page_data =
  page_number :: int
  dimensions :: dimensions_data
  lines :: "line_data list"

record para_data =
  content :: pystr
  role :: "pystr option"
  para_page_number :: "int option"

record cell_data =
  row :: int
  column :: int
  cell_text :: pystr
  kind :: "pystr option"
  row_span :: "int option"
  column_span :: "int option"

record table_data =
  table_id :: int
  row_count :: int
  column_count :: int
  cells :: "cell_data list"

record healthcare_metadata =
  payer_name :: "pystr option"
  document_type :: pystr
  detected_rules :: "detected_rule list"

record extraction_document =
  source_blob :: pystr
  extraction_date :: pystr
  page_count :: int
  full_text :: pystr
  pages :: "page_data list"
  paragraphs :: "para_data list"
  tables :: "table_data list"
  metadata :: healthcare_metadata
  healthcare_rules_count :: int

definition convert_line :: "raw_line \<Rightarrow> line_data" where
  "convert_line line =
     \<lparr>line_text = line_content line,
      confidence = getattr (line_confidence line) None,
      bounding_box = (if hasattr (line_polygon line) then getattr (line_polygon line) None else None)\<rparr>"

definition convert_page :: "raw_page \<Rightarrow> page_data" where
  "convert_page page =
     \<lparr>page_number = page_page_number page,
      dimensions = \<lparr>width = page_width page, height = page_height page,
                     unit_of_measure = page_unit page\<rparr>,
      lines = map convert_line (items_if_any (page_lines page))\<rparr>"

text \<open>
  \<open>para_data["page_number"]\<close> is set only under
  \<open>hasattr(para, 'bounding_regions') and para.bounding_regions\<close>.
\<close>

definition convert_paragraph :: "raw_paragraph \<Rightarrow> para_data" where
  "convert_paragraph para =
     \<lparr>content = para_content para,
      role = getattr (para_role para) None,
      para_page_number =
        (case para_bounding_regions para of
           Present (Some (region # regions)) \<Rightarrow> Some (region_page_number region)
         | _ \<Rightarrow> None)\<rparr>"

definition convert_cell :: "raw_cell \<Rightarrow> cell_data" where
  "convert_cell cell =
     \<lparr>row = cell_row_index cell,
      column = cell_column_index cell,
      cell_text = cell_content cell,
      kind = getattr (cell_kind cell) None,
      row_span = getattr (cell_row_span cell) (Some 1),
      column_span = getattr (cell_column_span cell) (Some 1)\<rparr>"

definition convert_table :: "nat \<times> raw_table \<Rightarrow> table_data" where
  "convert_table it =
     (case it of (table_idx, table) \<Rightarrow>
        \<lparr>table_id = int table_idx + 1,
         row_count = table_row_count table,
         column_count = table_column_count table,
         cells = map convert_cell (table_cells table)\<rparr>)"

text \<open>
  \<open>_convert_to_healthcare_json(result, blob_name)\<close>; \<open>now\<close> is the clock reading
  \<open>datetime.utcnow().isoformat()\<close>. The dictionary is built with a rule count of 0 and
  empty sequences, which the later statements overwrite, as in the source.
\<close>

definition convert_to_healthcare_json :: "raw_result \<Rightarrow> pystr \<Rightarrow> pystr \<Rightarrow> extraction_document" where
  "convert_to_healthcare_json result blob_name now =
     (let json_output =
            \<lparr>source_blob = blob_name,
             extraction_date = now,
             page_count = (case result_pages result of
                             None \<Rightarrow> 0
                           | Some ps \<Rightarrow> if ps = [] then 0 else int (length ps)),
             full_text = result_content result,
             pages = [],
             paragraphs = [],
             tables = [],
             metadata =
               \<lparr>payer_name = extract_payer_name (result_content result),
                document_type = classify_document_type (result_content result),
                detected_rules = extract_healthcare_rules (result_content result)\<rparr>,
             healthcare_rules_count = 0\<rparr>;
          json_output = json_output
            \<lparr>pages := pages json_output @ map convert_page (items_if_any (result_pages result))\<rparr>;
          json_output = json_output
            \<lparr>paragraphs := paragraphs json_output
               @ map convert_paragraph (items_if_any (result_paragraphs result))\<rparr>;
          json_output = json_output
            \<lparr>tables := tables json_output
               @ map convert_table (enumerate 0 (items_if_any (result_tables result)))\<rparr>
      in json_output
           \<lparr>healthcare_rules_count := int (length (detected_rules (metadata json_output)))\<rparr>)"

section \<open>Batch orchestrator\<close>

text \<open>
  What lies outside the program is the \<open>world\<close>: the blob listing of a container, the
  OCR call on a blob (signed URL, \<open>begin_analyze_document_from_url\<close>, \<open>poller.result()\<close>),
  the upload of a JSON value, and the clock. Each call either returns or raises; a raised
  exception is kept as a value with its \<open>str(e)\<close>. The exceptions are those that
  \<open>except Exception\<close> catches. The clock is read by document index (0 for the summary).
\<close>

datatype py_exception = Exception pystr

fun str_of :: "py_exception \<Rightarrow> pystr" where
  "str_of (Exception msg) = msg"

record blob =
  name :: pystr
  blob_size :: int

text \<open>The per-document outcome dictionary; a key that an outcome does not have is \<open>None\<close>.\<close>

record batch_result =
  blob_name :: pystr
  status :: pystr
  pages_key :: "int option"
  rules_extracted :: "int option"
  json_blob :: "pystr option"
  error :: "pystr option"
  timestamp :: pystr

record batch_summary =
  processing_date :: pystr
  total_files :: int
  successful :: int
  failed :: int
  total_pages :: int
  total_rules :: int
  results :: "batch_result list"

datatype json_payload = Document extraction_document | Summary batch_summary

text \<open>The fields of \<open>self\<close> that the batch run reads.\<close>

record processor =
  pdf_container :: pystr
  json_container :: pystr

record world =
  list_blobs :: "pystr \<Rightarrow> py_exception + blob list"
  analyze_document :: "pystr \<Rightarrow> pystr \<Rightarrow> py_exception + raw_result"
  upload_blob :: "pystr \<Rightarrow> pystr \<Rightarrow> json_payload \<Rightarrow> py_exception option"
  utcnow :: "nat \<Rightarrow> pystr"
  utcnow_stamp :: pystr

text \<open>
  \<open>Path(blob_name).stem\<close> for a POSIX path: the last component (what follows the last
  \<open>/\<close>) without its last suffix; a dot at the first or the last place of the component
  starts no suffix.
\<close>

definition path_name :: "pystr \<Rightarrow> pystr" where
  "path_name p = rev (takeWhile (\<lambda>c. c \<noteq> 47) (rev p))"

definition path_stem :: "pystr \<Rightarrow> pystr" where
  "path_stem p =
     (let nm = path_name p;
          after_dot = takeWhile (\<lambda>c. c \<noteq> 46) (rev nm);
          i = length nm - length after_dot - 1
      in if 46 \<in> set nm \<and> 0 < i \<and> i < length nm - 1 then take i nm else nm)"

definition py_endswith :: "pystr \<Rightarrow> pystr \<Rightarrow> bool" where
  "py_endswith s suf = suffix suf s"

definition upload_json_to_blob :: "processor \<Rightarrow> world \<Rightarrow> json_payload \<Rightarrow> pystr \<Rightarrow> py_exception option" where
  "upload_json_to_blob self w json_data blob_nm = upload_blob w (json_container self) blob_nm json_data"

text \<open>\<open>process_pdf_from_blob\<close>: its \<open>except\<close> clause prints and raises the exception again.\<close>

definition process_pdf_from_blob ::
  "processor \<Rightarrow> world \<Rightarrow> nat \<Rightarrow> pystr \<Rightarrow> py_exception + extraction_document" where
  "process_pdf_from_blob self w i blob_nm =
     (case analyze_document w (pdf_container self) blob_nm of
        Inl e \<Rightarrow> Inl e
      | Inr result \<Rightarrow>
          (let json_result = convert_to_healthcare_json result blob_nm (utcnow w i);
               json_blob_name = path_stem blob_nm @ cps ''_ocr.json''
           in case upload_json_to_blob self w (Document json_result) json_blob_name of
                Some e \<Rightarrow> Inl e
              | None \<Rightarrow> Inr json_result))"

text \<open>The dictionary \<open>summary\<close> that \<open>_upload_batch_summary\<close> builds from the results.\<close>

definition get_or_0 :: "int option \<Rightarrow> int" where
  "get_or_0 v = (case v of None \<Rightarrow> 0 | Some n \<Rightarrow> n)"

definition build_batch_summary :: "pystr \<Rightarrow> batch_result list \<Rightarrow> batch_summary" where
  "build_batch_summary now rs =
     \<lparr>processing_date = now,
      total_files = int (length rs),
      successful = int (length (filter (\<lambda>r. status r = cps ''success'') rs)),
      failed = int (length (filter (\<lambda>r. status r = cps ''failed'') rs)),
      total_pages = sum_list (map (\<lambda>r. get_or_0 (pages_key r)) (filter (\<lambda>r. status r = cps ''success'') rs)),
      total_rules = sum_list (map (\<lambda>r. get_or_0 (rules_extracted r)) (filter (\<lambda>r. status r = cps ''success'') rs)),
      results = rs\<rparr>"

text \<open>
  \<open>_upload_batch_summary\<close>: a failed upload is printed and swallowed. The result is the
  summary and whether it was stored.
\<close>

definition upload_batch_summary :: "processor \<Rightarrow> world \<Rightarrow> batch_result list \<Rightarrow> batch_summary \<times> bool" where
  "upload_batch_summary self w rs =
     (let summary = build_batch_summary (utcnow w 0) rs;
          summary_blob_name = cps ''_batch_summary_'' @ utcnow_stamp w @ cps ''.json''
      in case upload_json_to_blob self w (Summary summary) summary_blob_name of
           None \<Rightarrow> (summary, True)
         | Some e \<Rightarrow> (summary, False))"

text \<open>
  What a run does, in order: a document is attempted, the process sleeps
  (\<open>time.sleep(3)\<close>, in seconds).
\<close>

datatype event = Attempt pystr | Sleep int

text \<open>
  The body of \<open>for i, blob in enumerate(pdf_blobs, 1)\<close>: the outcome of document \<open>i\<close>,
  and the loop over the documents left, \<open>n\<close> being \<open>len(pdf_blobs)\<close>.
\<close>

definition document_outcome :: "processor \<Rightarrow> world \<Rightarrow> nat \<Rightarrow> blob \<Rightarrow> batch_result" where
  "document_outcome self w i b =
     (case process_pdf_from_blob self w i (name b) of
        Inr json_result \<Rightarrow>
          \<lparr>blob_name = name b, status = cps ''success'',
           pages_key = Some (page_count json_result),
           rules_extracted = Some (healthcare_rules_count json_result),
           json_blob = Some (path_stem (name b) @ cps ''_ocr.json''),
           error = None,
           timestamp = utcnow w i\<rparr>
      | Inl e \<Rightarrow>
          \<lparr>blob_name = name b, status = cps ''failed'',
           pages_key = None,
           rules_extracted = None,
           json_blob = None,
           error = Some (str_of e),
           timestamp = utcnow w i\<rparr>)"

fun process_loop ::
  "processor \<Rightarrow> world \<Rightarrow> nat \<Rightarrow> nat \<Rightarrow> blob list \<Rightarrow> batch_result list \<times> event list" where
  "process_loop self w n i [] = ([], [])"
| "process_loop self w n i (b # bs) =
     (let r = document_outcome self w i b;
          pause = (if i < n then [Sleep 3] else []);
          (rs, evs) = process_loop self w n (i + 1) bs
      in (r # rs, Attempt (name b) # pause @ evs))"

record batch_run =
  run_results :: "batch_result list"
  run_summary :: "batch_summary option"
  run_events :: "event list"

definition pdf_blobs_of :: "blob list \<Rightarrow> blob list" where
  "pdf_blobs_of all_blobs = filter (\<lambda>b. py_endswith (py_lower (name b)) (cps ''.pdf'')) all_blobs"

text \<open>
  \<open>process_all_pdfs_from_blob\<close>: a listing that raises, and a listing with no PDF, both
  return the empty result list before anything else is done.
\<close>

definition process_all_pdfs_from_blob :: "processor \<Rightarrow> world \<Rightarrow> batch_run" where
  "process_all_pdfs_from_blob self w =
     (case list_blobs w (pdf_container self) of
        Inl e \<Rightarrow> \<lparr>run_results = [], run_summary = None, run_events = []\<rparr>
      | Inr all_blobs \<Rightarrow>
          (let pdf_blobs = pdf_blobs_of all_blobs
           in if pdf_blobs = [] then \<lparr>run_results = [], run_summary = None, run_events = []\<rparr>
              else (let (rs, evs) = process_loop self w (length pdf_blobs) 1 pdf_blobs;
                        (summary, stored) = upload_batch_summary self w rs
                    in \<lparr>run_results = rs, run_summary = Some summary, run_events = evs\<rparr>)))"

text \<open>
  "A pause between consecutive documents", said without the loop: the attempts with one
  pause between each two neighbours.
\<close>

fun paced :: "event \<Rightarrow> event list \<Rightarrow> event list" where
  "paced pause [] = []"
| "paced pause [a] = [a]"
| "paced pause (a # b # rest) = a # pause # paced pause (b # rest)"

section \<open>Facts about the string operations\<close>

lemma startswith_prefix: "startswith t p \<longleftrightarrow> prefix p t"
  by (induction t p rule: startswith.induct) auto

lemma py_in_sublist: "py_in p t \<longleftrightarrow> sublist p t"
  by (induction t) (simp_all add: startswith_prefix sublist_Cons_right)

section \<open>Payer detection\<close>

lemma payer_scan_find:
  "payer_scan ks t = map_option py_title (find (\<lambda>p. sublist p t) ks)"
  by (induction ks) (simp_all add: py_in_sublist)

lemma title_payer_keywords:
  "map py_title payer_keywords = map cps
     [''United Healthcare'', ''Unitedhealthcare'', ''Uhc'', ''Anthem'', ''Elevance'', ''Aetna'',
      ''Cvs Health'', ''Kaiser Permanente'', ''Cigna'', ''Humana'', ''Blue Cross Blue Shield'',
      ''Bcbs'', ''Centene'', ''Molina Healthcare'']"
  by code_simp

lemma payer_example:
  "extract_payer_name (cps ''Member is covered under UHC and also Aetna network'') = Some (cps ''Uhc'')"
  by code_simp

text \<open>
  C1. For every text, payer detection returns the title-cased form of the first variant
  of the fixed list (in list order) that is a substring of the lower-cased text, and
  \<open>None\<close> when no variant is one. "First" is said three ways: as the library's
  \<open>find\<close> over the list, as the absence of any hit when the result is \<open>None\<close>, and by
  index (a hit at \<open>i\<close> with no hit below \<open>i\<close> decides). The title-cased forms of the
  fourteen variants are listed, and the text
  "Member is covered under UHC and also Aetna network" gives "Uhc".
\<close>

theorem extract_payer_name_first_match:
  "extract_payer_name text = map_option py_title (find (\<lambda>p. sublist p (py_lower text)) payer_keywords)
   \<and> (extract_payer_name text = None \<longleftrightarrow> (\<forall>p \<in> set payer_keywords. \<not> sublist p (py_lower text)))
   \<and> (\<forall>i < length payer_keywords.
         sublist (payer_keywords ! i) (py_lower text)
         \<and> (\<forall>j < i. \<not> sublist (payer_keywords ! j) (py_lower text))
         \<longrightarrow> extract_payer_name text = Some (py_title (payer_keywords ! i)))
   \<and> map py_title payer_keywords = map cps
     [''United Healthcare'', ''Unitedhealthcare'', ''Uhc'', ''Anthem'', ''Elevance'', ''Aetna'',
      ''Cvs Health'', ''Kaiser Permanente'', ''Cigna'', ''Humana'', ''Blue Cross Blue Shield'',
      ''Bcbs'', ''Centene'', ''Molina Healthcare'']
   \<and> extract_payer_name (cps ''Member is covered under UHC and also Aetna network'') = Some (cps ''Uhc'')"
proof -
  let ?P = "\<lambda>p. sublist p (py_lower text)"
  have eq: "extract_payer_name text = map_option py_title (find ?P payer_keywords)"
    by (simp add: extract_payer_name_def payer_scan_find)
  have none: "extract_payer_name text = None \<longleftrightarrow> (\<forall>p \<in> set payer_keywords. \<not> ?P p)"
    by (auto simp: eq find_None_iff)
  have first: "extract_payer_name text = Some (py_title (payer_keywords ! i))"
    if "i < length payer_keywords" "?P (payer_keywords ! i)" "\<forall>j < i. \<not> ?P (payer_keywords ! j)" for i
  proof -
    have "find ?P payer_keywords = Some (payer_keywords ! i)"
      using that by (auto simp: find_Some_iff)
    then show ?thesis by (simp add: eq)
  qed
  show ?thesis
    using eq none first title_payer_keywords payer_example by blast
qed

theorem extract_payer_name_first_match_witness:
  "(2::nat) < length payer_keywords
   \<and> sublist (payer_keywords ! 2) (py_lower (cps ''Member is covered under UHC and also Aetna network''))
   \<and> \<not> sublist (payer_keywords ! 0) (py_lower (cps ''Member is covered under UHC and also Aetna network''))
   \<and> \<not> sublist (payer_keywords ! 1) (py_lower (cps ''Member is covered under UHC and also Aetna network''))
   \<and> extract_payer_name (cps ''Member is covered under UHC and also Aetna network'') = Some (py_title (payer_keywords ! 2))"
proof -
  let ?T = "cps ''Member is covered under UHC and also Aetna network''"
  have len: "(2::nat) < length payer_keywords" by code_simp
  have hit: "sublist (payer_keywords ! 2) (py_lower ?T)" by code_simp
  have m0: "\<not> sublist (payer_keywords ! 0) (py_lower ?T)" by code_simp
  have m1: "\<not> sublist (payer_keywords ! 1) (py_lower ?T)" by code_simp
  have miss: "\<forall>j < 2. \<not> sublist (payer_keywords ! j) (py_lower ?T)"
    using m0 m1 by (auto simp: less_2_cases_iff)
  show ?thesis
    using extract_payer_name_first_match [of ?T] len hit miss m0 m1 by blast
qed

section \<open>Document-type classification\<close>

text \<open>
  C2. For every text, the classification is the category of the first rule of the
  priority table that holds of the lower-cased text (rule 2 needs both of its keywords,
  rules 1 and 5 either of theirs), and "General Policy Document" when none holds. A text
  with "appeal" and "fee schedule" that rules 1 and 2 do not match is "Appeals Process".
\<close>

theorem classify_document_type_priority:
  "classify_document_type text = spec_document_type text
   \<and> (sublist (cps ''appeal'') (py_lower text) \<and> sublist (cps ''fee schedule'') (py_lower text)
        \<and> \<not> sublist (cps ''prior authorization'') (py_lower text)
        \<and> \<not> sublist (cps ''pre-authorization'') (py_lower text)
        \<and> \<not> (sublist (cps ''claim'') (py_lower text) \<and> sublist (cps ''timely filing'') (py_lower text))
      \<longrightarrow> classify_document_type text = cps ''Appeals Process'')"
  by (simp add: classify_document_type_def spec_document_type_def document_type_rules_def
        py_in_sublist Let_def)

theorem classify_document_type_priority_witness:
  "sublist (cps ''appeal'') (py_lower (cps ''How to APPEAL a Fee Schedule decision''))
   \<and> sublist (cps ''fee schedule'') (py_lower (cps ''How to APPEAL a Fee Schedule decision''))
   \<and> \<not> sublist (cps ''prior authorization'') (py_lower (cps ''How to APPEAL a Fee Schedule decision''))
   \<and> \<not> sublist (cps ''pre-authorization'') (py_lower (cps ''How to APPEAL a Fee Schedule decision''))
   \<and> \<not> (sublist (cps ''claim'') (py_lower (cps ''How to APPEAL a Fee Schedule decision''))
          \<and> sublist (cps ''timely filing'') (py_lower (cps ''How to APPEAL a Fee Schedule decision'')))
   \<and> classify_document_type (cps ''How to APPEAL a Fee Schedule decision'') = cps ''Appeals Process''"
proof -
  let ?T = "cps ''How to APPEAL a Fee Schedule decision''"
  have h1: "sublist (cps ''appeal'') (py_lower ?T)" by code_simp
  have h2: "sublist (cps ''fee schedule'') (py_lower ?T)" by code_simp
  have h3: "\<not> sublist (cps ''prior authorization'') (py_lower ?T)" by code_simp
  have h4: "\<not> sublist (cps ''pre-authorization'') (py_lower ?T)" by code_simp
  have h5: "\<not> sublist (cps ''claim'') (py_lower ?T)" by code_simp
  show ?thesis
    using classify_document_type_priority [of ?T] h1 h2 h3 h4 h5 by blast
qed

section \<open>Rule mining\<close>

lemma scan_patterns_filter:
  "scan_patterns text t rtype ps rules =
     rules @ map (\<lambda>p. \<lparr>rule_type = rtype, pattern_matched = p,
                         rule_text = extract_surrounding_text text p 200\<rparr>)
                 (filter (\<lambda>p. sublist p t) ps)"
  by (induction ps arbitrary: rules) (simp_all add: py_in_sublist)

lemma scan_rule_types_filter:
  "scan_rule_types text t items rules =
     rules @ concat (map (\<lambda>(rtype, ps).
                map (\<lambda>p. \<lparr>rule_type = rtype, pattern_matched = p,
                             rule_text = extract_surrounding_text text p 200\<rparr>)
                    (filter (\<lambda>p. sublist p t) ps)) items)"
  by (induction items arbitrary: rules) (auto simp: scan_patterns_filter)

lemma rule_keys_items:
  "map rule_key (concat (map (\<lambda>(rtype, ps).
                map (\<lambda>p. \<lparr>rule_type = rtype, pattern_matched = p,
                             rule_text = extract_surrounding_text text p 200\<rparr>)
                    (filter (\<lambda>p. sublist p t) ps)) items))
   = filter (\<lambda>(c, p). sublist p t) (concat (map (\<lambda>(rtype, patterns). map (Pair rtype) patterns) items))"
  by (induction items) (auto simp: rule_key_def filter_map comp_def)

lemma rule_keys: "map rule_key (extract_healthcare_rules text) = filter (\<lambda>(c, p). sublist p (py_lower text)) rule_pairs"
  by (simp add: extract_healthcare_rules_def scan_rule_types_filter rule_keys_items rule_pairs_def)

lemma rule_texts:
  "r \<in> set (extract_healthcare_rules text) \<Longrightarrow> rule_text r = extract_surrounding_text text (pattern_matched r) 200"
  by (auto simp: extract_healthcare_rules_def scan_rule_types_filter)

lemma distinct_patterns: "distinct (map snd rule_pairs)"
  by code_simp

lemma rule_pairs_value:
  "rule_pairs =
     [(cps ''prior_authorization'', cps ''prior authorization required''),
      (cps ''prior_authorization'', cps ''pre-auth required''),
      (cps ''prior_authorization'', cps ''pa required''),
      (cps ''timely_filing'', cps ''timely filing''),
      (cps ''timely_filing'', cps ''filing deadline''),
      (cps ''timely_filing'', cps ''claim submission deadline''),
      (cps ''appeal_deadline'', cps ''appeal within''),
      (cps ''appeal_deadline'', cps ''appeal deadline''),
      (cps ''appeal_deadline'', cps ''days to appeal''),
      (cps ''documentation'', cps ''documentation required''),
      (cps ''documentation'', cps ''medical records required''),
      (cps ''notification'', cps ''notification required''),
      (cps ''notification'', cps ''must notify''),
      (cps ''notification'', cps ''advance notice'')]"
  by (simp add: rule_pairs_def rule_patterns_def)

lemma count_one:
  assumes "distinct (map snd ps)" "(c, p) \<in> set ps"
  shows "length (filter (\<lambda>k. snd k = p) (filter (\<lambda>(c, q). Q q) ps)) = (if Q p then 1 else 0)"
  using assms
proof (induction ps)
  case Nil then show ?case by simp
next
  case (Cons a ps)
  show ?case
  proof (cases "a = (c, p)")
    case True
    then have "\<forall>k \<in> set ps. snd k \<noteq> p" using Cons.prems by force
    then have "filter (\<lambda>k. snd k = p) (filter (\<lambda>(c, q). Q q) ps) = []"
      by (auto simp: filter_empty_conv)
    then show ?thesis using True by simp
  next
    case False
    then have in_ps: "(c, p) \<in> set ps" using Cons.prems by auto
    have "p \<in> snd ` set ps" using in_ps by force
    moreover have "snd a \<notin> snd ` set ps" using Cons.prems by simp
    ultimately have "snd a \<noteq> p" by auto
    then show ?thesis using Cons in_ps by (auto split: prod.splits)
  qed
qed

lemma two_phrases_among:
  assumes "sublist (cps ''timely filing'') t" "sublist (cps ''filing deadline'') t"
  shows "filter (\<lambda>k. (case k of (c, p) \<Rightarrow> sublist p t)
                      \<and> (snd k = cps ''timely filing'' \<or> snd k = cps ''filing deadline'')) rule_pairs
         = [(cps ''timely_filing'', cps ''timely filing''), (cps ''timely_filing'', cps ''filing deadline'')]"
  using assms by (simp add: rule_pairs_value cps_def)

lemma two_phrases_only:
  assumes "sublist (cps ''timely filing'') t" "sublist (cps ''filing deadline'') t"
    and "\<forall>(c, p) \<in> set rule_pairs. p \<noteq> cps ''timely filing'' \<and> p \<noteq> cps ''filing deadline'' \<longrightarrow> \<not> sublist p t"
  shows "filter (\<lambda>(c, p). sublist p t) rule_pairs
         = [(cps ''timely_filing'', cps ''timely filing''), (cps ''timely_filing'', cps ''filing deadline'')]"
proof -
  have "filter (\<lambda>(c, p). sublist p t) rule_pairs
        = filter (\<lambda>k. (case k of (c, p) \<Rightarrow> sublist p t)
                      \<and> (snd k = cps ''timely filing'' \<or> snd k = cps ''filing deadline'')) rule_pairs"
    by (rule filter_cong) (use assms(3) in auto)
  then show ?thesis using two_phrases_among [OF assms(1,2)] by simp
qed

text \<open>
  C3. For every text, rule mining tests every trigger phrase of every category against the
  lower-cased text. The (category, phrase) pairs of the result are the pairs of the table
  whose phrase occurs, in table order; each entry carries the context window of its
  phrase; for each phrase of the table the result holds one entry when the phrase occurs
  and none when it does not, whatever the number of occurrences. In a text with
  "timely filing" and "filing deadline" the entries for these two phrases are two, both
  tagged \<open>timely_filing\<close>; when no other trigger phrase occurs they are the whole
  result; a text with no trigger phrase gives the empty list.
\<close>

theorem extract_healthcare_rules_one_per_phrase:
  "map rule_key (extract_healthcare_rules text) = filter (\<lambda>(c, p). sublist p (py_lower text)) rule_pairs
   \<and> (\<forall>r \<in> set (extract_healthcare_rules text).
         rule_text r = extract_surrounding_text text (pattern_matched r) 200)
   \<and> (\<forall>(c, p) \<in> set rule_pairs.
         length (filter (\<lambda>r. pattern_matched r = p) (extract_healthcare_rules text))
           = (if sublist p (py_lower text) then 1 else 0))
   \<and> (sublist (cps ''timely filing'') (py_lower text) \<and> sublist (cps ''filing deadline'') (py_lower text)
        \<longrightarrow> map rule_key (filter (\<lambda>r. pattern_matched r = cps ''timely filing''
                                        \<or> pattern_matched r = cps ''filing deadline'')
                                  (extract_healthcare_rules text))
             = [(cps ''timely_filing'', cps ''timely filing''), (cps ''timely_filing'', cps ''filing deadline'')])
   \<and> (sublist (cps ''timely filing'') (py_lower text) \<and> sublist (cps ''filing deadline'') (py_lower text)
        \<and> (\<forall>(c, p) \<in> set rule_pairs.
              p \<noteq> cps ''timely filing'' \<and> p \<noteq> cps ''filing deadline'' \<longrightarrow> \<not> sublist p (py_lower text))
        \<longrightarrow> map rule_key (extract_healthcare_rules text)
             = [(cps ''timely_filing'', cps ''timely filing''), (cps ''timely_filing'', cps ''filing deadline'')]
            \<and> length (extract_healthcare_rules text) = 2)
   \<and> ((\<forall>(c, p) \<in> set rule_pairs. \<not> sublist p (py_lower text)) \<longrightarrow> extract_healthcare_rules text = [])"
proof -
  let ?rs = "extract_healthcare_rules text"
  let ?t = "py_lower text"
  let ?X = "cps ''timely filing''" and ?Y = "cps ''filing deadline''"
  let ?two = "[(cps ''timely_filing'', ?X), (cps ''timely_filing'', ?Y)]"
  have keys: "map rule_key ?rs = filter (\<lambda>(c, p). sublist p ?t) rule_pairs"
    by (rule rule_keys)
  have texts: "\<forall>r \<in> set ?rs. rule_text r = extract_surrounding_text text (pattern_matched r) 200"
    using rule_texts by blast
  have pm: "(\<lambda>r. P (pattern_matched r)) = (\<lambda>k. P (snd k)) \<circ> rule_key" for P :: "pystr \<Rightarrow> bool"
    by (auto simp: rule_key_def)
  have count: "length (filter (\<lambda>r. pattern_matched r = p) ?rs) = (if sublist p ?t then 1 else 0)"
    if "(c, p) \<in> set rule_pairs" for c p
  proof -
    have "length (filter (\<lambda>r. pattern_matched r = p) ?rs)
          = length (filter (\<lambda>k. snd k = p) (map rule_key ?rs))"
      by (simp add: filter_map pm [of "\<lambda>q. q = p"])
    also have "\<dots> = (if sublist p ?t then 1 else 0)"
      unfolding keys by (rule count_one [OF distinct_patterns that])
    finally show ?thesis .
  qed
  have among: "map rule_key (filter (\<lambda>r. pattern_matched r = ?X \<or> pattern_matched r = ?Y) ?rs) = ?two"
    if "sublist ?X ?t" "sublist ?Y ?t"
  proof -
    have "map rule_key (filter (\<lambda>r. pattern_matched r = ?X \<or> pattern_matched r = ?Y) ?rs)
          = filter (\<lambda>k. snd k = ?X \<or> snd k = ?Y) (map rule_key ?rs)"
      by (simp add: filter_map pm [of "\<lambda>q. q = ?X \<or> q = ?Y"])
    also have "\<dots> = filter (\<lambda>k. (case k of (c, p) \<Rightarrow> sublist p ?t) \<and> (snd k = ?X \<or> snd k = ?Y)) rule_pairs"
      unfolding keys by simp
    also have "\<dots> = ?two" by (rule two_phrases_among [OF that])
    finally show ?thesis .
  qed
  have only: "map rule_key ?rs = ?two \<and> length ?rs = 2"
    if "sublist ?X ?t" "sublist ?Y ?t"
       "\<forall>(c, p) \<in> set rule_pairs. p \<noteq> ?X \<and> p \<noteq> ?Y \<longrightarrow> \<not> sublist p ?t"
  proof -
    have k: "map rule_key ?rs = ?two"
      unfolding keys by (rule two_phrases_only [OF that])
    have "length ?rs = length (map rule_key ?rs)" by simp
    also have "\<dots> = 2" unfolding k by simp
    finally show ?thesis using k by simp
  qed
  have none: "?rs = []" if "\<forall>(c, p) \<in> set rule_pairs. \<not> sublist p ?t"
  proof -
    have "filter (\<lambda>(c, p). sublist p ?t) rule_pairs = []"
      using that by (auto simp: filter_empty_conv)
    then have "map rule_key ?rs = []" using keys by simp
    then show ?thesis by simp
  qed
  show ?thesis
    using keys texts count among only none by blast
qed

theorem extract_healthcare_rules_one_per_phrase_witness:
  "(cps ''timely_filing'', cps ''filing deadline'') \<in> set rule_pairs
   \<and> sublist (cps ''timely filing'') (py_lower (cps ''Timely filing applies; the Filing Deadline is 90 days. Timely filing matters.''))
   \<and> sublist (cps ''filing deadline'') (py_lower (cps ''Timely filing applies; the Filing Deadline is 90 days. Timely filing matters.''))
   \<and> list_all (\<lambda>(c, p). p \<noteq> cps ''timely filing'' \<and> p \<noteq> cps ''filing deadline''
         \<longrightarrow> \<not> sublist p (py_lower (cps ''Timely filing applies; the Filing Deadline is 90 days. Timely filing matters.'')))
        rule_pairs
   \<and> map rule_key (extract_healthcare_rules (cps ''Timely filing applies; the Filing Deadline is 90 days. Timely filing matters.''))
       = [(cps ''timely_filing'', cps ''timely filing''), (cps ''timely_filing'', cps ''filing deadline'')]
   \<and> length (extract_healthcare_rules (cps ''Timely filing applies; the Filing Deadline is 90 days. Timely filing matters.'')) = 2
   \<and> length (filter (\<lambda>r. pattern_matched r = cps ''filing deadline'')
               (extract_healthcare_rules (cps ''Timely filing applies; the Filing Deadline is 90 days. Timely filing matters.''))) = 1"
proof -
  let ?T = "cps ''Timely filing applies; the Filing Deadline is 90 days. Timely filing matters.''"
  have mem: "(cps ''timely_filing'', cps ''filing deadline'') \<in> set rule_pairs"
    by (simp add: rule_pairs_value)
  have h1: "sublist (cps ''timely filing'') (py_lower ?T)" by code_simp
  have h2: "sublist (cps ''filing deadline'') (py_lower ?T)" by code_simp
  have h3: "\<forall>(c, p) \<in> set rule_pairs.
              p \<noteq> cps ''timely filing'' \<and> p \<noteq> cps ''filing deadline'' \<longrightarrow> \<not> sublist p (py_lower ?T)"
    by code_simp
  have all: "\<forall>(c, p) \<in> set rule_pairs.
         length (filter (\<lambda>r. pattern_matched r = p) (extract_healthcare_rules ?T))
           = (if sublist p (py_lower ?T) then 1 else 0)"
    using extract_healthcare_rules_one_per_phrase [of ?T] by blast
  have one: "length (filter (\<lambda>r. pattern_matched r = cps ''filing deadline'') (extract_healthcare_rules ?T)) = 1"
    using all mem h2 by fastforce
  have two: "map rule_key (extract_healthcare_rules ?T)
       = [(cps ''timely_filing'', cps ''timely filing''), (cps ''timely_filing'', cps ''filing deadline'')]
      \<and> length (extract_healthcare_rules ?T) = 2"
    using extract_healthcare_rules_one_per_phrase [of ?T] h1 h2 h3 by blast
  have h3': "list_all (\<lambda>(c, p). p \<noteq> cps ''timely filing'' \<and> p \<noteq> cps ''filing deadline''
               \<longrightarrow> \<not> sublist p (py_lower ?T)) rule_pairs"
    using h3 by (simp add: list_all_iff)
  show ?thesis using mem h1 h2 h3' one two by blast
qed

section \<open>Context window\<close>

lemma dotted_I_text_lower:
  "py_find (py_lower (replicate 211 304 @ cps ''pa required'')) (py_lower (cps ''pa required'')) = 422"
  by code_simp

lemma dotted_I_occurrence:
  "py_lower (drop 211 (replicate 211 304 @ cps ''pa required'')) = py_lower (cps ''pa required'')"
  by code_simp

lemma dotted_I_claimed_window:
  "py_strip (py_slice (replicate 211 304 @ cps ''pa required'') (211 - 200)
              (211 + py_len (cps ''pa required'') + 200))
     = replicate 200 304 @ cps ''pa required''"
  by code_simp

lemma dotted_I_returned:
  "extract_surrounding_text (replicate 211 304 @ cps ''pa required'') (cps ''pa required'') 200 = []"
  by code_simp

text \<open>
  C4. The claim has the window run from 200 code points before the first
  case-insensitive occurrence of the phrase to 200 code points after its end. In the
  text of 211 times U+0130 followed by "pa required" the phrase occurs at index 211, so
  the window of the claim is 200 times U+0130 followed by the phrase. The source finds the
  phrase at index 422 of the lower-cased text, which is 211 code points longer than the
  text, and slices the text from 222 to its end at 222: it returns the empty string.
\<close>

theorem context_window_index_of_lowered_text:
  "py_lower (drop 211 (replicate 211 304 @ cps ''pa required'')) = py_lower (cps ''pa required'')
   \<and> py_strip (py_slice (replicate 211 304 @ cps ''pa required'') (211 - 200)
              (211 + py_len (cps ''pa required'') + 200))
       = replicate 200 304 @ cps ''pa required''
   \<and> py_find (py_lower (replicate 211 304 @ cps ''pa required'')) (py_lower (cps ''pa required'')) = 422
   \<and> extract_surrounding_text (replicate 211 304 @ cps ''pa required'') (cps ''pa required'') 200 = []"
  using dotted_I_occurrence dotted_I_claimed_window dotted_I_text_lower dotted_I_returned
  by simp

section \<open>The empty text\<close>

lemma empty_payer: "extract_payer_name [] = None"
  by code_simp

lemma empty_document_type: "classify_document_type [] = cps ''General Policy Document''"
  by code_simp

lemma empty_rules: "extract_healthcare_rules [] = []"
  by code_simp

text \<open>
  C10. On the empty text, payer detection returns \<open>None\<close>, the classification is
  "General Policy Document" and rule mining returns the empty list. The three functions
  are total, so none of them raises.
\<close>

theorem empty_text_neutral:
  "extract_payer_name [] = None
   \<and> classify_document_type [] = cps ''General Policy Document''
   \<and> extract_healthcare_rules [] = []"
  using empty_payer empty_document_type empty_rules by simp

section \<open>Adapter and assembly\<close>

lemma convert_fields:
  "metadata (convert_to_healthcare_json result blob_nm now) =
     \<lparr>payer_name = extract_payer_name (result_content result),
      document_type = classify_document_type (result_content result),
      detected_rules = extract_healthcare_rules (result_content result)\<rparr>"
  "pages (convert_to_healthcare_json result blob_nm now) = map convert_page (items_if_any (result_pages result))"
  "paragraphs (convert_to_healthcare_json result blob_nm now) = map convert_paragraph (items_if_any (result_paragraphs result))"
  "tables (convert_to_healthcare_json result blob_nm now) = map convert_table (enumerate 0 (items_if_any (result_tables result)))"
  "healthcare_rules_count (convert_to_healthcare_json result blob_nm now) = int (length (extract_healthcare_rules (result_content result)))"
  "page_count (convert_to_healthcare_json result blob_nm now) = int (length (items_if_any (result_pages result)))"
  by (simp_all add: convert_to_healthcare_json_def Let_def split: option.splits)

text \<open>
  C5. For every raw layout result, source name and clock reading, the
  \<open>healthcare_rules_count\<close> of the assembled document is the length of the
  \<open>detected_rules\<close> of its metadata, and those are the rules mined from the result's
  text: the count is computed from the list, whatever the list is (the empty list gives 0).
\<close>

theorem rules_count_is_length:
  "healthcare_rules_count (convert_to_healthcare_json result blob_nm now)
     = int (length (detected_rules (metadata (convert_to_healthcare_json result blob_nm now))))
   \<and> detected_rules (metadata (convert_to_healthcare_json result blob_nm now))
     = extract_healthcare_rules (result_content result)"
  by (simp add: convert_fields)

theorem rules_count_is_length_witness:
  "detected_rules (metadata (convert_to_healthcare_json
      \<lparr>result_pages = None, result_content = cps ''No trigger here'', result_paragraphs = None,
       result_tables = None\<rparr> (cps ''a.pdf'') (cps ''2024-01-01T00:00:00''))) = []
   \<and> healthcare_rules_count (convert_to_healthcare_json
      \<lparr>result_pages = None, result_content = cps ''No trigger here'', result_paragraphs = None,
       result_tables = None\<rparr> (cps ''a.pdf'') (cps ''2024-01-01T00:00:00'')) = 0"
proof -
  let ?r = "\<lparr>result_pages = None, result_content = cps ''No trigger here'', result_paragraphs = None,
       result_tables = None\<rparr>"
  have e: "extract_healthcare_rules (cps ''No trigger here'') = []" by code_simp
  show ?thesis
    using rules_count_is_length [of ?r "cps ''a.pdf''" "cps ''2024-01-01T00:00:00''"] e by simp
qed

text \<open>
  What the adapter does with data that is not there. It is a total function of the raw
  result. Pages, paragraphs or tables that are \<open>None\<close> or empty give the empty
  sequence (and a page count of 0); the lines of a page likewise. A line's confidence and
  bounding box, a paragraph's role and a cell's kind are \<open>None\<close> in the output when the
  attribute is missing from the object or is \<open>None\<close>. A cell's row span and column span
  are 1 when the attribute is missing from the cell; a span attribute that the cell has is
  passed on with the value it holds.
\<close>

lemma adapter_absent_data:
  "(result_pages result = None \<or> result_pages result = Some []
      \<longrightarrow> pages (convert_to_healthcare_json result blob_nm now) = []
          \<and> page_count (convert_to_healthcare_json result blob_nm now) = 0)
   \<and> (result_paragraphs result = None \<or> result_paragraphs result = Some []
      \<longrightarrow> paragraphs (convert_to_healthcare_json result blob_nm now) = [])
   \<and> (result_tables result = None \<or> result_tables result = Some []
      \<longrightarrow> tables (convert_to_healthcare_json result blob_nm now) = [])
   \<and> pages (convert_to_healthcare_json result blob_nm now) = map convert_page (items_if_any (result_pages result))
   \<and> paragraphs (convert_to_healthcare_json result blob_nm now) = map convert_paragraph (items_if_any (result_paragraphs result))
   \<and> map cells (tables (convert_to_healthcare_json result blob_nm now))
       = map (\<lambda>t. map convert_cell (table_cells t)) (items_if_any (result_tables result))
   \<and> (\<forall>page. lines (convert_page page) = map convert_line (items_if_any (page_lines page)))
   \<and> (\<forall>line. (line_confidence line = Missing \<or> line_confidence line = Present None
                   \<longrightarrow> confidence (convert_line line) = None)
              \<and> (line_polygon line = Missing \<or> line_polygon line = Present None
                   \<longrightarrow> bounding_box (convert_line line) = None))
   \<and> (\<forall>para. (para_role para = Missing \<or> para_role para = Present None
                   \<longrightarrow> role (convert_paragraph para) = None))
   \<and> (\<forall>cell. (cell_kind cell = Missing \<or> cell_kind cell = Present None
                   \<longrightarrow> kind (convert_cell cell) = None)
              \<and> (cell_row_span cell = Missing \<longrightarrow> row_span (convert_cell cell) = Some 1)
              \<and> (cell_column_span cell = Missing \<longrightarrow> column_span (convert_cell cell) = Some 1)
              \<and> (\<forall>v. cell_row_span cell = Present v \<longrightarrow> row_span (convert_cell cell) = v)
              \<and> (\<forall>v. cell_column_span cell = Present v \<longrightarrow> column_span (convert_cell cell) = v))"
proof -
  have t: "map (cells \<circ> convert_table) (enumerate n ts) = map (\<lambda>t. map convert_cell (table_cells t)) ts"
    for n ts
    by (induction ts arbitrary: n) (simp_all add: convert_table_def)
  show ?thesis
    by (auto simp: convert_fields t convert_page_def convert_line_def convert_paragraph_def
        convert_cell_def)
qed

text \<open>
  C8. The claim has an absent row span and an absent column span come out as 1. A cell
  whose \<open>row_span\<close> and \<open>column_span\<close> attributes are there and hold \<open>None\<close> (no
  span declared, as \<open>None\<close> says of the pages, and of the kind of this same cell) comes
  out of the adapter with both spans \<open>None\<close>: \<open>getattr(cell, 'row_span', 1)\<close> takes
  its default only when the attribute is missing.
\<close>

theorem absent_span_not_defaulted:
  "map cells (tables (convert_to_healthcare_json
       \<lparr>result_pages = None, result_content = [], result_paragraphs = None,
        result_tables = Some [\<lparr>table_row_count = 1, table_column_count = 1,
          table_cells = [\<lparr>cell_row_index = 0, cell_column_index = 0, cell_content = cps ''x'',
            cell_kind = Present None, cell_row_span = Present None,
            cell_column_span = Present None\<rparr>]\<rparr>]\<rparr>
       (cps ''a.pdf'') (cps ''2024-01-01T00:00:00'')))
     = [[\<lparr>row = 0, column = 0, cell_text = cps ''x'', kind = None, row_span = None,
          column_span = None\<rparr>]]"
  by (simp add: convert_fields convert_table_def convert_cell_def)

section \<open>Batch summary\<close>

lemma sum_list_filter_index:
  "sum_list (map f (filter P xs)) = (\<Sum>i | i < length xs \<and> P (xs ! i). f (xs ! i))"
proof -
  have "sum_list (map f (filter P xs)) = sum_list (map (\<lambda>x. if P x then f x else 0) xs)"
    by (induction xs) simp_all
  also have "\<dots> = (\<Sum>i = 0..<length xs. if P (xs ! i) then f (xs ! i) else 0)"
    by (simp add: sum_list_sum_nth)
  also have "\<dots> = (\<Sum>i | i < length xs \<and> P (xs ! i). f (xs ! i))"
  proof -
    have S: "{i. i < length xs \<and> P (xs ! i)} = {i \<in> {0..<length xs}. P (xs ! i)}" by auto
    show ?thesis by (subst S, subst sum.inter_filter) simp_all
  qed
  finally show ?thesis .
qed

text \<open>
  C6. For every list of per-document outcomes, the totals of the batch summary are
  computed from that list alone: \<open>total_files\<close> is its length, \<open>successful\<close> and
  \<open>failed\<close> count the positions whose status is "success" and "failed",
  \<open>total_pages\<close> and \<open>total_rules\<close> sum the page and rule counts over the
  positions whose status is "success". So an outcome with status "failed", put anywhere
  in the list, adds nothing to the pages, the rules and the successes, and one to the
  failures and to the files. The summary that is uploaded is this one.
\<close>

theorem batch_summary_totals:
  "total_files (build_batch_summary now rs) = int (length rs)
   \<and> successful (build_batch_summary now rs) = int (card {i. i < length rs \<and> status (rs ! i) = cps ''success''})
   \<and> failed (build_batch_summary now rs) = int (card {i. i < length rs \<and> status (rs ! i) = cps ''failed''})
   \<and> total_pages (build_batch_summary now rs)
       = (\<Sum>i | i < length rs \<and> status (rs ! i) = cps ''success''. get_or_0 (pages_key (rs ! i)))
   \<and> total_rules (build_batch_summary now rs)
       = (\<Sum>i | i < length rs \<and> status (rs ! i) = cps ''success''. get_or_0 (rules_extracted (rs ! i)))
   \<and> results (build_batch_summary now rs) = rs
   \<and> (status r = cps ''failed'' \<longrightarrow>
         total_pages (build_batch_summary now (rs @ r # rs')) = total_pages (build_batch_summary now (rs @ rs'))
       \<and> total_rules (build_batch_summary now (rs @ r # rs')) = total_rules (build_batch_summary now (rs @ rs'))
       \<and> successful (build_batch_summary now (rs @ r # rs')) = successful (build_batch_summary now (rs @ rs'))
       \<and> failed (build_batch_summary now (rs @ r # rs')) = failed (build_batch_summary now (rs @ rs')) + 1
       \<and> total_files (build_batch_summary now (rs @ r # rs')) = total_files (build_batch_summary now (rs @ rs')) + 1)
   \<and> fst (upload_batch_summary self w rs) = build_batch_summary (utcnow w 0) rs"
proof -
  have ne: "cps ''failed'' \<noteq> cps ''success''" by (simp add: cps_def)
  have up: "fst (upload_batch_summary self w rs) = build_batch_summary (utcnow w 0) rs"
    by (simp add: upload_batch_summary_def Let_def split: option.splits)
  show ?thesis
    using ne up
    by (simp add: build_batch_summary_def sum_list_filter_index length_filter_conv_card)
qed

theorem batch_summary_totals_witness:
  "status \<lparr>blob_name = cps ''b.pdf'', status = cps ''failed'', pages_key = None,
           rules_extracted = None, json_blob = None, error = Some (cps ''timeout''),
           timestamp = cps ''t2''\<rparr> = cps ''failed''
   \<and> total_pages (build_batch_summary (cps ''t0'')
        ([\<lparr>blob_name = cps ''a.pdf'', status = cps ''success'', pages_key = Some 5,
           rules_extracted = Some 2, json_blob = Some (cps ''a_ocr.json''), error = None,
           timestamp = cps ''t1''\<rparr>]
         @ \<lparr>blob_name = cps ''b.pdf'', status = cps ''failed'', pages_key = None,
             rules_extracted = None, json_blob = None, error = Some (cps ''timeout''),
             timestamp = cps ''t2''\<rparr> # [])) = 5
   \<and> total_rules (build_batch_summary (cps ''t0'')
        ([\<lparr>blob_name = cps ''a.pdf'', status = cps ''success'', pages_key = Some 5,
           rules_extracted = Some 2, json_blob = Some (cps ''a_ocr.json''), error = None,
           timestamp = cps ''t1''\<rparr>]
         @ \<lparr>blob_name = cps ''b.pdf'', status = cps ''failed'', pages_key = None,
             rules_extracted = None, json_blob = None, error = Some (cps ''timeout''),
             timestamp = cps ''t2''\<rparr> # [])) = 2
   \<and> failed (build_batch_summary (cps ''t0'')
        ([\<lparr>blob_name = cps ''a.pdf'', status = cps ''success'', pages_key = Some 5,
           rules_extracted = Some 2, json_blob = Some (cps ''a_ocr.json''), error = None,
           timestamp = cps ''t1''\<rparr>]
         @ \<lparr>blob_name = cps ''b.pdf'', status = cps ''failed'', pages_key = None,
             rules_extracted = None, json_blob = None, error = Some (cps ''timeout''),
             timestamp = cps ''t2''\<rparr> # [])) = 1
   \<and> total_files (build_batch_summary (cps ''t0'')
        ([\<lparr>blob_name = cps ''a.pdf'', status = cps ''success'', pages_key = Some 5,
           rules_extracted = Some 2, json_blob = Some (cps ''a_ocr.json''), error = None,
           timestamp = cps ''t1''\<rparr>]
         @ \<lparr>blob_name = cps ''b.pdf'', status = cps ''failed'', pages_key = None,
             rules_extracted = None, json_blob = None, error = Some (cps ''timeout''),
             timestamp = cps ''t2''\<rparr> # [])) = 2"
proof -
  let ?a = "\<lparr>blob_name = cps ''a.pdf'', status = cps ''success'', pages_key = Some 5,
           rules_extracted = Some 2, json_blob = Some (cps ''a_ocr.json''), error = None,
           timestamp = cps ''t1''\<rparr>"
  let ?b = "\<lparr>blob_name = cps ''b.pdf'', status = cps ''failed'', pages_key = None,
           rules_extracted = None, json_blob = None, error = Some (cps ''timeout''),
           timestamp = cps ''t2''\<rparr>"
  have f: "status ?b = cps ''failed''" by simp
  have base: "total_pages (build_batch_summary (cps ''t0'') ([?a] @ [])) = 5"
    "total_rules (build_batch_summary (cps ''t0'') ([?a] @ [])) = 2"
    "failed (build_batch_summary (cps ''t0'') ([?a] @ [])) = 0"
    "total_files (build_batch_summary (cps ''t0'') ([?a] @ [])) = 1"
    by (simp_all add: build_batch_summary_def get_or_0_def cps_def)
  from batch_summary_totals [of "cps ''t0''" "[?a]" ?b "[]"] f
  have "total_pages (build_batch_summary (cps ''t0'') ([?a] @ ?b # []))
          = total_pages (build_batch_summary (cps ''t0'') ([?a] @ []))"
    "total_rules (build_batch_summary (cps ''t0'') ([?a] @ ?b # []))
          = total_rules (build_batch_summary (cps ''t0'') ([?a] @ []))"
    "failed (build_batch_summary (cps ''t0'') ([?a] @ ?b # []))
          = failed (build_batch_summary (cps ''t0'') ([?a] @ [])) + 1"
    "total_files (build_batch_summary (cps ''t0'') ([?a] @ ?b # []))
          = total_files (build_batch_summary (cps ''t0'') ([?a] @ [])) + 1"
    by blast+
  then show ?thesis using f base by simp
qed

section \<open>Batch run\<close>

lemma path_stem_examples:
  "path_stem (cps ''a.pdf'') = cps ''a''"
  "path_stem (cps ''dir/My File.PDF'') = cps ''My File''"
  "path_stem (cps ''.pdf'') = cps ''.pdf''"
  "path_stem (cps ''dir.v2/report.final.pdf'') = cps ''report.final''"
  by code_simp+

lemma process_loop_results:
  "fst (process_loop self w n i bs) = map (\<lambda>(k, b). document_outcome self w k b) (enumerate i bs)"
  by (induction bs arbitrary: i) (simp_all add: Let_def case_prod_beta)

lemma process_loop_events:
  "i + length bs = Suc n \<Longrightarrow>
   snd (process_loop self w n i bs) = paced (Sleep 3) (map (\<lambda>b. Attempt (name b)) bs)"
proof (induction bs arbitrary: i)
  case Nil
  then show ?case by simp
next
  case (Cons b bs)
  show ?case
  proof (cases bs)
    case Nil
    then show ?thesis using Cons.prems by (simp add: Let_def case_prod_beta)
  next
    case (Cons b' bs')
    have "Suc i + length bs = Suc n" using Cons.prems by simp
    then have "snd (process_loop self w n (i + 1) bs) = paced (Sleep 3) (map (\<lambda>b. Attempt (name b)) bs)"
      using Cons.IH [of "i + 1"] by simp
    moreover have "i < n" using Cons.prems Cons by simp
    ultimately show ?thesis using Cons by (simp add: Let_def case_prod_beta)
  qed
qed

lemma paced_sleeps: "length (filter (\<lambda>e. e = p) (paced p (map (\<lambda>b. Attempt (f b)) bs))) = length bs - 1"
  if "\<And>a. p \<noteq> Attempt a"
  using that by (induction bs rule: induct_list012) (auto simp: Suc_diff_le)

lemma paced_attempts:
  "filter (\<lambda>e. case e of Attempt a \<Rightarrow> True | Sleep d \<Rightarrow> False)
     (paced (Sleep d) (map (\<lambda>b. Attempt (f b)) bs)) = map (\<lambda>b. Attempt (f b)) bs"
  by (induction bs rule: induct_list012) simp_all

lemma paced_members:
  "e \<in> set (paced p xs) \<Longrightarrow> e = p \<or> e \<in> set xs"
  by (induction p xs rule: paced.induct) auto

lemma paced_Nil_iff: "paced p xs = [] \<longleftrightarrow> xs = []"
  by (induction p xs rule: paced.induct) auto

lemma paced_last: "xs \<noteq> [] \<Longrightarrow> last (paced p xs) = last xs"
  by (induction p xs rule: paced.induct) (auto simp: paced_Nil_iff)

lemma process_loop_sleeps_3:
  "Sleep d \<in> set (snd (process_loop self w n i bs)) \<Longrightarrow> d = 3"
  by (induction bs arbitrary: i) (auto simp: Let_def case_prod_beta split: if_splits)

lemma run_no_documents:
  "(case list_blobs w (pdf_container self) of Inl e \<Rightarrow> True | Inr all_blobs \<Rightarrow> pdf_blobs_of all_blobs = [])
   \<Longrightarrow> process_all_pdfs_from_blob self w = \<lparr>run_results = [], run_summary = None, run_events = []\<rparr>"
  by (simp add: process_all_pdfs_from_blob_def Let_def split: sum.splits)

lemma run_documents:
  assumes "list_blobs w (pdf_container self) = Inr all_blobs" "pdf_blobs_of all_blobs \<noteq> []"
  shows "run_results (process_all_pdfs_from_blob self w)
           = map (\<lambda>(k, b). document_outcome self w k b) (enumerate 1 (pdf_blobs_of all_blobs))"
    and "run_events (process_all_pdfs_from_blob self w)
           = paced (Sleep 3) (map (\<lambda>b. Attempt (name b)) (pdf_blobs_of all_blobs))"
    and "run_summary (process_all_pdfs_from_blob self w)
           = Some (build_batch_summary (utcnow w 0) (run_results (process_all_pdfs_from_blob self w)))"
proof -
  let ?pdfs = "pdf_blobs_of all_blobs"
  have ev: "snd (process_loop self w (length ?pdfs) 1 ?pdfs)
              = paced (Sleep 3) (map (\<lambda>b. Attempt (name b)) ?pdfs)"
    by (rule process_loop_events) simp
  have up: "fst (upload_batch_summary self w rs) = build_batch_summary (utcnow w 0) rs" for rs
    by (simp add: upload_batch_summary_def Let_def split: option.splits)
  have run: "process_all_pdfs_from_blob self w =
      \<lparr>run_results = fst (process_loop self w (length ?pdfs) 1 ?pdfs),
       run_summary = Some (fst (upload_batch_summary self w (fst (process_loop self w (length ?pdfs) 1 ?pdfs)))),
       run_events = snd (process_loop self w (length ?pdfs) 1 ?pdfs)\<rparr>"
    using assms by (simp add: process_all_pdfs_from_blob_def Let_def case_prod_beta)
  show "run_results (process_all_pdfs_from_blob self w)
           = map (\<lambda>(k, b). document_outcome self w k b) (enumerate 1 ?pdfs)"
    by (simp add: run process_loop_results)
  show "run_events (process_all_pdfs_from_blob self w)
           = paced (Sleep 3) (map (\<lambda>b. Attempt (name b)) ?pdfs)"
    using ev by (simp add: run)
  show "run_summary (process_all_pdfs_from_blob self w)
           = Some (build_batch_summary (utcnow w 0) (run_results (process_all_pdfs_from_blob self w)))"
    by (simp add: run up)
qed

lemma document_outcome_cases:
  "blob_name (document_outcome self w i b) = name b"
  "process_pdf_from_blob self w i (name b) = Inl e \<Longrightarrow>
     status (document_outcome self w i b) = cps ''failed''
     \<and> error (document_outcome self w i b) = Some (str_of e)
     \<and> pages_key (document_outcome self w i b) = None
     \<and> rules_extracted (document_outcome self w i b) = None"
  "process_pdf_from_blob self w i (name b) = Inr d \<Longrightarrow>
     status (document_outcome self w i b) = cps ''success''
     \<and> error (document_outcome self w i b) = None
     \<and> pages_key (document_outcome self w i b) = Some (page_count d)
     \<and> rules_extracted (document_outcome self w i b) = Some (healthcare_rules_count d)"
  by (simp_all add: document_outcome_def split: sum.splits)

lemma stage_failures:
  "analyze_document w (pdf_container self) blob_nm = Inl e \<Longrightarrow> process_pdf_from_blob self w i blob_nm = Inl e"
  "analyze_document w (pdf_container self) blob_nm = Inr result \<Longrightarrow>
   upload_blob w (json_container self) (path_stem blob_nm @ cps ''_ocr.json'')
     (Document (convert_to_healthcare_json result blob_nm (utcnow w i))) = Some e \<Longrightarrow>
   process_pdf_from_blob self w i blob_nm = Inl e"
  by (simp_all add: process_pdf_from_blob_def upload_json_to_blob_def Let_def)

lemma status_two_valued:
  "status (document_outcome self w i b) = cps ''success'' \<or> status (document_outcome self w i b) = cps ''failed''"
  by (simp add: document_outcome_def split: sum.splits)

lemma success_failed_partition:
  assumes "\<forall>r \<in> set rs. status r = cps ''success'' \<or> status r = cps ''failed''"
  shows "successful (build_batch_summary now rs) + failed (build_batch_summary now rs)
           = total_files (build_batch_summary now rs)"
proof -
  have ne: "cps ''failed'' \<noteq> cps ''success''" by (simp add: cps_def)
  have "length (filter (\<lambda>r. status r = cps ''success'') rs) + length (filter (\<lambda>r. status r = cps ''failed'') rs)
          = length rs"
    using assms ne by (induction rs) auto
  then show ?thesis by (simp add: build_batch_summary_def)
qed

text \<open>
  C7, as amended. In a run over the N discovered documents (N at least 1), every document
  is attempted, in listing order, and has one outcome at its place in the results. When
  the pipeline of document \<open>i\<close> raises (the OCR call, or the upload of the document's
  JSON), the outcome has status "failed" and carries \<open>str(e)\<close> of the exception as its
  error description, whatever that string is, and the run goes on with the next document;
  when it returns, the outcome has status "success" with the page and rule counts. The
  summary has \<open>total_files = N\<close>, and its successes and failures add up to N; with
  three documents of which only the second fails it reports 3, 2 and 1.
\<close>

theorem batch_failures_recorded:
  "(list_blobs w (pdf_container self) = Inr all_blobs \<and> pdf_blobs_of all_blobs \<noteq> [] \<longrightarrow>
     (let out = process_all_pdfs_from_blob self w; pdfs = pdf_blobs_of all_blobs in
        length (run_results out) = length pdfs
        \<and> filter (\<lambda>e. case e of Attempt a \<Rightarrow> True | Sleep d \<Rightarrow> False) (run_events out)
            = map (\<lambda>b. Attempt (name b)) pdfs
        \<and> (\<forall>i < length pdfs.
              blob_name (run_results out ! i) = name (pdfs ! i)
              \<and> (\<forall>e. process_pdf_from_blob self w (i + 1) (name (pdfs ! i)) = Inl e \<longrightarrow>
                     status (run_results out ! i) = cps ''failed''
                     \<and> error (run_results out ! i) = Some (str_of e))
              \<and> (\<forall>d. process_pdf_from_blob self w (i + 1) (name (pdfs ! i)) = Inr d \<longrightarrow>
                     status (run_results out ! i) = cps ''success''
                     \<and> error (run_results out ! i) = None
                     \<and> pages_key (run_results out ! i) = Some (page_count d)
                     \<and> rules_extracted (run_results out ! i) = Some (healthcare_rules_count d)))
        \<and> (\<exists>s. run_summary out = Some s \<and> results s = run_results out
               \<and> total_files s = int (length pdfs)
               \<and> successful s + failed s = total_files s
               \<and> (\<forall>b1 b2 b3 d1 e2 d3.
                     pdfs = [b1, b2, b3]
                     \<and> process_pdf_from_blob self w 1 (name b1) = Inr d1
                     \<and> process_pdf_from_blob self w 2 (name b2) = Inl e2
                     \<and> process_pdf_from_blob self w 3 (name b3) = Inr d3
                     \<longrightarrow> total_files s = 3 \<and> successful s = 2 \<and> failed s = 1))))
   \<and> (\<forall>blob_nm e i. analyze_document w (pdf_container self) blob_nm = Inl e
         \<longrightarrow> process_pdf_from_blob self w i blob_nm = Inl e)
   \<and> (\<forall>blob_nm result e i.
         analyze_document w (pdf_container self) blob_nm = Inr result
         \<and> upload_blob w (json_container self) (path_stem blob_nm @ cps ''_ocr.json'')
              (Document (convert_to_healthcare_json result blob_nm (utcnow w i))) = Some e
         \<longrightarrow> process_pdf_from_blob self w i blob_nm = Inl e)"
proof -
  have stages: "(\<forall>blob_nm e i. analyze_document w (pdf_container self) blob_nm = Inl e
         \<longrightarrow> process_pdf_from_blob self w i blob_nm = Inl e)
   \<and> (\<forall>blob_nm result e i.
         analyze_document w (pdf_container self) blob_nm = Inr result
         \<and> upload_blob w (json_container self) (path_stem blob_nm @ cps ''_ocr.json'')
              (Document (convert_to_healthcare_json result blob_nm (utcnow w i))) = Some e
         \<longrightarrow> process_pdf_from_blob self w i blob_nm = Inl e)"
    using stage_failures by blast
  have run: "let out = process_all_pdfs_from_blob self w; pdfs = pdf_blobs_of all_blobs in
        length (run_results out) = length pdfs
        \<and> filter (\<lambda>e. case e of Attempt a \<Rightarrow> True | Sleep d \<Rightarrow> False) (run_events out)
            = map (\<lambda>b. Attempt (name b)) pdfs
        \<and> (\<forall>i < length pdfs.
              blob_name (run_results out ! i) = name (pdfs ! i)
              \<and> (\<forall>e. process_pdf_from_blob self w (i + 1) (name (pdfs ! i)) = Inl e \<longrightarrow>
                     status (run_results out ! i) = cps ''failed''
                     \<and> error (run_results out ! i) = Some (str_of e))
              \<and> (\<forall>d. process_pdf_from_blob self w (i + 1) (name (pdfs ! i)) = Inr d \<longrightarrow>
                     status (run_results out ! i) = cps ''success''
                     \<and> error (run_results out ! i) = None
                     \<and> pages_key (run_results out ! i) = Some (page_count d)
                     \<and> rules_extracted (run_results out ! i) = Some (healthcare_rules_count d)))
        \<and> (\<exists>s. run_summary out = Some s \<and> results s = run_results out
               \<and> total_files s = int (length pdfs)
               \<and> successful s + failed s = total_files s
               \<and> (\<forall>b1 b2 b3 d1 e2 d3.
                     pdfs = [b1, b2, b3]
                     \<and> process_pdf_from_blob self w 1 (name b1) = Inr d1
                     \<and> process_pdf_from_blob self w 2 (name b2) = Inl e2
                     \<and> process_pdf_from_blob self w 3 (name b3) = Inr d3
                     \<longrightarrow> total_files s = 3 \<and> successful s = 2 \<and> failed s = 1))"
    if h: "list_blobs w (pdf_container self) = Inr all_blobs" "pdf_blobs_of all_blobs \<noteq> []"
  proof -
    let ?out = "process_all_pdfs_from_blob self w"
    let ?pdfs = "pdf_blobs_of all_blobs"
    note rd = run_documents [OF h]
    have len: "length (run_results ?out) = length ?pdfs"
      by (simp add: rd(1))
    have att: "filter (\<lambda>e. case e of Attempt a \<Rightarrow> True | Sleep d \<Rightarrow> False) (run_events ?out)
            = map (\<lambda>b. Attempt (name b)) ?pdfs"
      by (simp add: rd(2) paced_attempts)
    have nth: "run_results ?out ! i = document_outcome self w (i + 1) (?pdfs ! i)" if "i < length ?pdfs" for i
      using that by (simp add: rd(1) nth_enumerate_eq)
    have each: "blob_name (run_results ?out ! i) = name (?pdfs ! i)
              \<and> (\<forall>e. process_pdf_from_blob self w (i + 1) (name (?pdfs ! i)) = Inl e \<longrightarrow>
                     status (run_results ?out ! i) = cps ''failed''
                     \<and> error (run_results ?out ! i) = Some (str_of e))
              \<and> (\<forall>d. process_pdf_from_blob self w (i + 1) (name (?pdfs ! i)) = Inr d \<longrightarrow>
                     status (run_results ?out ! i) = cps ''success''
                     \<and> error (run_results ?out ! i) = None
                     \<and> pages_key (run_results ?out ! i) = Some (page_count d)
                     \<and> rules_extracted (run_results ?out ! i) = Some (healthcare_rules_count d))"
      if "i < length ?pdfs" for i
      unfolding nth [OF that] using document_outcome_cases [of self w "i + 1" "?pdfs ! i"] by blast
    let ?s = "build_batch_summary (utcnow w 0) (run_results ?out)"
    have two: "\<forall>r \<in> set (run_results ?out). status r = cps ''success'' \<or> status r = cps ''failed''"
      using status_two_valued by (auto simp: rd(1))
    have ne: "cps ''failed'' \<noteq> cps ''success''" by (simp add: cps_def)
    have three: "total_files ?s = 3 \<and> successful ?s = 2 \<and> failed ?s = 1"
      if "?pdfs = [b1, b2, b3]"
         "process_pdf_from_blob self w 1 (name b1) = Inr d1"
         "process_pdf_from_blob self w 2 (name b2) = Inl e2"
         "process_pdf_from_blob self w 3 (name b3) = Inr d3" for b1 b2 b3 d1 e2 d3
    proof -
      have rs: "run_results ?out = [document_outcome self w 1 b1, document_outcome self w 2 b2,
                                    document_outcome self w 3 b3]"
        by (simp add: rd(1) that(1) enumerate_simps numeral_2_eq_2 numeral_3_eq_3)
      have "status (document_outcome self w 1 b1) = cps ''success''"
        "status (document_outcome self w 2 b2) = cps ''failed''"
        "status (document_outcome self w 3 b3) = cps ''success''"
        using document_outcome_cases(2,3) that(2,3,4) by blast+
      then show ?thesis
        using ne by (simp add: rs build_batch_summary_def)
    qed
    have summ: "run_summary ?out = Some ?s \<and> results ?s = run_results ?out
               \<and> total_files ?s = int (length ?pdfs)
               \<and> successful ?s + failed ?s = total_files ?s"
      using rd(3) len success_failed_partition [OF two] by (simp add: build_batch_summary_def)
    show ?thesis
      unfolding Let_def using len att each summ three by blast
  qed
  show ?thesis using run stages by blast
qed

lemma pdf_filter_three:
  "pdf_blobs_of [\<lparr>name = cps ''a.pdf'', blob_size = 1\<rparr>, \<lparr>name = cps ''notes.txt'', blob_size = 1\<rparr>,
          \<lparr>name = cps ''b.PDF'', blob_size = 1\<rparr>, \<lparr>name = cps ''c.pdf'', blob_size = 1\<rparr>] = [\<lparr>name = cps ''a.pdf'', blob_size = 1\<rparr>, \<lparr>name = cps ''b.PDF'', blob_size = 1\<rparr>,
          \<lparr>name = cps ''c.pdf'', blob_size = 1\<rparr>]"
  by code_simp

lemma pdf_filter_two:
  "pdf_blobs_of [\<lparr>name = cps ''a.pdf'', blob_size = 1\<rparr>, \<lparr>name = cps ''b.pdf'', blob_size = 1\<rparr>] = [\<lparr>name = cps ''a.pdf'', blob_size = 1\<rparr>, \<lparr>name = cps ''b.pdf'', blob_size = 1\<rparr>]"
  by code_simp

lemma pdf_filter_one:
  "pdf_blobs_of [\<lparr>name = cps ''a.pdf'', blob_size = 1\<rparr>] = [\<lparr>name = cps ''a.pdf'', blob_size = 1\<rparr>]"
  by code_simp

theorem batch_failures_recorded_witness:
  "pdf_blobs_of [\<lparr>name = cps ''a.pdf'', blob_size = 1\<rparr>, \<lparr>name = cps ''notes.txt'', blob_size = 1\<rparr>,
          \<lparr>name = cps ''b.PDF'', blob_size = 1\<rparr>, \<lparr>name = cps ''c.pdf'', blob_size = 1\<rparr>] = [\<lparr>name = cps ''a.pdf'', blob_size = 1\<rparr>, \<lparr>name = cps ''b.PDF'', blob_size = 1\<rparr>,
          \<lparr>name = cps ''c.pdf'', blob_size = 1\<rparr>]
   \<and> length (run_results (process_all_pdfs_from_blob \<lparr>pdf_container = cps ''healthcare-pdfs'', json_container = cps ''healthcare-json''\<rparr> \<lparr>list_blobs = (\<lambda>c. Inr [\<lparr>name = cps ''a.pdf'', blob_size = 1\<rparr>, \<lparr>name = cps ''notes.txt'', blob_size = 1\<rparr>,
                                \<lparr>name = cps ''b.PDF'', blob_size = 1\<rparr>, \<lparr>name = cps ''c.pdf'', blob_size = 1\<rparr>]),
        analyze_document = (\<lambda>c b. if b = cps ''b.PDF'' then Inl (Exception (cps ''OCR failed''))
                                   else Inr \<lparr>result_pages = None, result_content = [], result_paragraphs = None, result_tables = None\<rparr>),
        upload_blob = (\<lambda>c n j. None), utcnow = (\<lambda>i. cps ''t''), utcnow_stamp = cps ''s''\<rparr>)) = 3
   \<and> status (run_results (process_all_pdfs_from_blob \<lparr>pdf_container = cps ''healthcare-pdfs'', json_container = cps ''healthcare-json''\<rparr> \<lparr>list_blobs = (\<lambda>c. Inr [\<lparr>name = cps ''a.pdf'', blob_size = 1\<rparr>, \<lparr>name = cps ''notes.txt'', blob_size = 1\<rparr>,
                                \<lparr>name = cps ''b.PDF'', blob_size = 1\<rparr>, \<lparr>name = cps ''c.pdf'', blob_size = 1\<rparr>]),
        analyze_document = (\<lambda>c b. if b = cps ''b.PDF'' then Inl (Exception (cps ''OCR failed''))
                                   else Inr \<lparr>result_pages = None, result_content = [], result_paragraphs = None, result_tables = None\<rparr>),
        upload_blob = (\<lambda>c n j. None), utcnow = (\<lambda>i. cps ''t''), utcnow_stamp = cps ''s''\<rparr>) ! 0) = cps ''success''
   \<and> status (run_results (process_all_pdfs_from_blob \<lparr>pdf_container = cps ''healthcare-pdfs'', json_container = cps ''healthcare-json''\<rparr> \<lparr>list_blobs = (\<lambda>c. Inr [\<lparr>name = cps ''a.pdf'', blob_size = 1\<rparr>, \<lparr>name = cps ''notes.txt'', blob_size = 1\<rparr>,
                                \<lparr>name = cps ''b.PDF'', blob_size = 1\<rparr>, \<lparr>name = cps ''c.pdf'', blob_size = 1\<rparr>]),
        analyze_document = (\<lambda>c b. if b = cps ''b.PDF'' then Inl (Exception (cps ''OCR failed''))
                                   else Inr \<lparr>result_pages = None, result_content = [], result_paragraphs = None, result_tables = None\<rparr>),
        upload_blob = (\<lambda>c n j. None), utcnow = (\<lambda>i. cps ''t''), utcnow_stamp = cps ''s''\<rparr>) ! 1) = cps ''failed''
   \<and> error (run_results (process_all_pdfs_from_blob \<lparr>pdf_container = cps ''healthcare-pdfs'', json_container = cps ''healthcare-json''\<rparr> \<lparr>list_blobs = (\<lambda>c. Inr [\<lparr>name = cps ''a.pdf'', blob_size = 1\<rparr>, \<lparr>name = cps ''notes.txt'', blob_size = 1\<rparr>,
                                \<lparr>name = cps ''b.PDF'', blob_size = 1\<rparr>, \<lparr>name = cps ''c.pdf'', blob_size = 1\<rparr>]),
        analyze_document = (\<lambda>c b. if b = cps ''b.PDF'' then Inl (Exception (cps ''OCR failed''))
                                   else Inr \<lparr>result_pages = None, result_content = [], result_paragraphs = None, result_tables = None\<rparr>),
        upload_blob = (\<lambda>c n j. None), utcnow = (\<lambda>i. cps ''t''), utcnow_stamp = cps ''s''\<rparr>) ! 1) = Some (cps ''OCR failed'')
   \<and> status (run_results (process_all_pdfs_from_blob \<lparr>pdf_container = cps ''healthcare-pdfs'', json_container = cps ''healthcare-json''\<rparr> \<lparr>list_blobs = (\<lambda>c. Inr [\<lparr>name = cps ''a.pdf'', blob_size = 1\<rparr>, \<lparr>name = cps ''notes.txt'', blob_size = 1\<rparr>,
                                \<lparr>name = cps ''b.PDF'', blob_size = 1\<rparr>, \<lparr>name = cps ''c.pdf'', blob_size = 1\<rparr>]),
        analyze_document = (\<lambda>c b. if b = cps ''b.PDF'' then Inl (Exception (cps ''OCR failed''))
                                   else Inr \<lparr>result_pages = None, result_content = [], result_paragraphs = None, result_tables = None\<rparr>),
        upload_blob = (\<lambda>c n j. None), utcnow = (\<lambda>i. cps ''t''), utcnow_stamp = cps ''s''\<rparr>) ! 2) = cps ''success''
   \<and> map_option (\<lambda>s. (total_files s, successful s, failed s))
         (run_summary (process_all_pdfs_from_blob \<lparr>pdf_container = cps ''healthcare-pdfs'', json_container = cps ''healthcare-json''\<rparr> \<lparr>list_blobs = (\<lambda>c. Inr [\<lparr>name = cps ''a.pdf'', blob_size = 1\<rparr>, \<lparr>name = cps ''notes.txt'', blob_size = 1\<rparr>,
                                \<lparr>name = cps ''b.PDF'', blob_size = 1\<rparr>, \<lparr>name = cps ''c.pdf'', blob_size = 1\<rparr>]),
        analyze_document = (\<lambda>c b. if b = cps ''b.PDF'' then Inl (Exception (cps ''OCR failed''))
                                   else Inr \<lparr>result_pages = None, result_content = [], result_paragraphs = None, result_tables = None\<rparr>),
        upload_blob = (\<lambda>c n j. None), utcnow = (\<lambda>i. cps ''t''), utcnow_stamp = cps ''s''\<rparr>)) = Some (3, 2, 1)"
proof -
  let ?self = "\<lparr>pdf_container = cps ''healthcare-pdfs'', json_container = cps ''healthcare-json''\<rparr>"
  let ?w = "\<lparr>list_blobs = (\<lambda>c. Inr [\<lparr>name = cps ''a.pdf'', blob_size = 1\<rparr>, \<lparr>name = cps ''notes.txt'', blob_size = 1\<rparr>,
                                \<lparr>name = cps ''b.PDF'', blob_size = 1\<rparr>, \<lparr>name = cps ''c.pdf'', blob_size = 1\<rparr>]),
        analyze_document = (\<lambda>c b. if b = cps ''b.PDF'' then Inl (Exception (cps ''OCR failed''))
                                   else Inr \<lparr>result_pages = None, result_content = [], result_paragraphs = None, result_tables = None\<rparr>),
        upload_blob = (\<lambda>c n j. None), utcnow = (\<lambda>i. cps ''t''), utcnow_stamp = cps ''s''\<rparr>"
  let ?all = "[\<lparr>name = cps ''a.pdf'', blob_size = 1\<rparr>, \<lparr>name = cps ''notes.txt'', blob_size = 1\<rparr>,
          \<lparr>name = cps ''b.PDF'', blob_size = 1\<rparr>, \<lparr>name = cps ''c.pdf'', blob_size = 1\<rparr>]"
  let ?out = "process_all_pdfs_from_blob ?self ?w"
  have l: "list_blobs ?w (pdf_container ?self) = Inr ?all" by simp
  have f: "pdf_blobs_of ?all = [\<lparr>name = cps ''a.pdf'', blob_size = 1\<rparr>, \<lparr>name = cps ''b.PDF'', blob_size = 1\<rparr>,
          \<lparr>name = cps ''c.pdf'', blob_size = 1\<rparr>]" by (rule pdf_filter_three)
  then have ne: "pdf_blobs_of ?all \<noteq> []" by simp
  have ab: "cps ''a.pdf'' \<noteq> cps ''b.PDF''" "cps ''c.pdf'' \<noteq> cps ''b.PDF''" by (simp_all add: cps_def)
  have p1: "process_pdf_from_blob ?self ?w i (cps ''a.pdf'')
              = Inr (convert_to_healthcare_json \<lparr>result_pages = None, result_content = [], result_paragraphs = None, result_tables = None\<rparr> (cps ''a.pdf'') (cps ''t''))" for i
    using ab by (simp add: process_pdf_from_blob_def upload_json_to_blob_def)
  have p2: "process_pdf_from_blob ?self ?w i (cps ''b.PDF'') = Inl (Exception (cps ''OCR failed''))" for i
    by (simp add: process_pdf_from_blob_def upload_json_to_blob_def)
  have p3: "process_pdf_from_blob ?self ?w i (cps ''c.pdf'')
              = Inr (convert_to_healthcare_json \<lparr>result_pages = None, result_content = [], result_paragraphs = None, result_tables = None\<rparr> (cps ''c.pdf'') (cps ''t''))" for i
    using ab by (simp add: process_pdf_from_blob_def upload_json_to_blob_def)
  from batch_failures_recorded [of ?w ?self ?all] l ne
  have main: "length (run_results ?out) = length (pdf_blobs_of ?all)"
    "\<forall>i < length (pdf_blobs_of ?all).
        (\<forall>e. process_pdf_from_blob ?self ?w (i + 1) (name (pdf_blobs_of ?all ! i)) = Inl e \<longrightarrow>
               status (run_results ?out ! i) = cps ''failed''
               \<and> error (run_results ?out ! i) = Some (str_of e))
        \<and> (\<forall>d. process_pdf_from_blob ?self ?w (i + 1) (name (pdf_blobs_of ?all ! i)) = Inr d \<longrightarrow>
               status (run_results ?out ! i) = cps ''success'')"
    "\<exists>s. run_summary ?out = Some s
       \<and> (\<forall>b1 b2 b3 d1 e2 d3.
             pdf_blobs_of ?all = [b1, b2, b3]
             \<and> process_pdf_from_blob ?self ?w 1 (name b1) = Inr d1
             \<and> process_pdf_from_blob ?self ?w 2 (name b2) = Inl e2
             \<and> process_pdf_from_blob ?self ?w 3 (name b3) = Inr d3
             \<longrightarrow> total_files s = 3 \<and> successful s = 2 \<and> failed s = 1)"
    unfolding Let_def by blast+
  have len: "length (run_results ?out) = 3" using main(1) f by simp
  have s0: "status (run_results ?out ! 0) = cps ''success''"
    using main(2) [rule_format, of 0] f p1 by simp
  have s1: "status (run_results ?out ! 1) = cps ''failed''
            \<and> error (run_results ?out ! 1) = Some (cps ''OCR failed'')"
    using main(2) [rule_format, of 1] f p2 by simp
  have s2: "status (run_results ?out ! 2) = cps ''success''"
    using main(2) [rule_format, of 2] f p3 by simp
  obtain s where s: "run_summary ?out = Some s"
    and ex: "\<And>b1 b2 b3 d1 e2 d3.
             pdf_blobs_of ?all = [b1, b2, b3] \<Longrightarrow>
             process_pdf_from_blob ?self ?w 1 (name b1) = Inr d1 \<Longrightarrow>
             process_pdf_from_blob ?self ?w 2 (name b2) = Inl e2 \<Longrightarrow>
             process_pdf_from_blob ?self ?w 3 (name b3) = Inr d3 \<Longrightarrow>
             total_files s = 3 \<and> successful s = 2 \<and> failed s = 1"
    using main(3) by blast
  have "total_files s = 3 \<and> successful s = 2 \<and> failed s = 1"
    by (rule ex [OF f]) (simp_all add: p1 p2 p3)
  then have sm: "map_option (\<lambda>s. (total_files s, successful s, failed s)) (run_summary ?out) = Some (3, 2, 1)"
    using s by simp
  show ?thesis using f len s0 s1 s2 sm by simp
qed

text \<open>
  The error description is the exception's own text and is empty when that is: a single
  document whose OCR call raises \<open>Exception()\<close> is recorded as failed with the
  description \<open>""\<close>.
\<close>

theorem failed_entry_with_empty_description:
  "run_results (process_all_pdfs_from_blob \<lparr>pdf_container = cps ''healthcare-pdfs'', json_container = cps ''healthcare-json''\<rparr> \<lparr>list_blobs = (\<lambda>c. Inr [\<lparr>name = cps ''a.pdf'', blob_size = 1\<rparr>]),
        analyze_document = (\<lambda>c b. Inl (Exception [])),
        upload_blob = (\<lambda>c n j. None), utcnow = (\<lambda>i. cps ''t''), utcnow_stamp = cps ''s''\<rparr>)
     = [\<lparr>blob_name = cps ''a.pdf'', status = cps ''failed'', pages_key = None,
          rules_extracted = None, json_blob = None, error = Some [], timestamp = cps ''t''\<rparr>]"
proof -
  have l: "list_blobs \<lparr>list_blobs = (\<lambda>c. Inr [\<lparr>name = cps ''a.pdf'', blob_size = 1\<rparr>]),
        analyze_document = (\<lambda>c b. Inl (Exception [])),
        upload_blob = (\<lambda>c n j. None), utcnow = (\<lambda>i. cps ''t''), utcnow_stamp = cps ''s''\<rparr> (pdf_container \<lparr>pdf_container = cps ''healthcare-pdfs'', json_container = cps ''healthcare-json''\<rparr>) = Inr [\<lparr>name = cps ''a.pdf'', blob_size = 1\<rparr>]" by simp
  have ne: "pdf_blobs_of [\<lparr>name = cps ''a.pdf'', blob_size = 1\<rparr>] \<noteq> []" using pdf_filter_one by simp
  show ?thesis
    unfolding run_documents(1) [OF l ne] pdf_filter_one
    by (simp add: enumerate_simps document_outcome_def process_pdf_from_blob_def)
qed

lemma run_sleeps_3:
  "Sleep d \<in> set (run_events (process_all_pdfs_from_blob self w)) \<Longrightarrow> d = 3"
proof (cases "list_blobs w (pdf_container self)")
  case (Inl e)
  then have "run_events (process_all_pdfs_from_blob self w) = []"
    by (simp add: run_no_documents)
  then show "Sleep d \<in> set (run_events (process_all_pdfs_from_blob self w)) \<Longrightarrow> d = 3" by simp
next
  case (Inr all_blobs)
  assume m: "Sleep d \<in> set (run_events (process_all_pdfs_from_blob self w))"
  show "d = 3"
  proof (cases "pdf_blobs_of all_blobs = []")
    case True
    then have "run_events (process_all_pdfs_from_blob self w) = []"
      using Inr by (simp add: run_no_documents)
    then show ?thesis using m by simp
  next
    case False
    have "Sleep d \<in> set (paced (Sleep 3) (map (\<lambda>b. Attempt (name b)) (pdf_blobs_of all_blobs)))"
      using m run_documents(2) [OF Inr False] by simp
    then show ?thesis using paced_members by fastforce
  qed
qed

text \<open>
  C9, as amended. In a run over the N discovered documents the process sleeps 3 seconds
  after each document but the last: the events of the run are the attempts in listing
  order with one \<open>Sleep 3\<close> between each two neighbours, so there are N - 1 sleeps, the
  last event is the attempt of the last document, and a run over one document has no
  sleep. Every sleep of every run lasts 3 seconds, whatever the processor's fields and
  the world are. A run that finds no document has no event.
\<close>

theorem pacing_between_documents:
  "(list_blobs w (pdf_container self) = Inr all_blobs \<and> pdf_blobs_of all_blobs \<noteq> [] \<longrightarrow>
     (let out = process_all_pdfs_from_blob self w; pdfs = pdf_blobs_of all_blobs in
        run_events out = paced (Sleep 3) (map (\<lambda>b. Attempt (name b)) pdfs)
        \<and> length (filter (\<lambda>e. e = Sleep 3) (run_events out)) = length pdfs - 1
        \<and> last (run_events out) = Attempt (name (last pdfs))
        \<and> (length pdfs = 1 \<longrightarrow> run_events out = [Attempt (name (hd pdfs))])))
   \<and> (\<forall>d. Sleep d \<in> set (run_events (process_all_pdfs_from_blob self w)) \<longrightarrow> d = 3)
   \<and> ((case list_blobs w (pdf_container self) of
          Inl e \<Rightarrow> True | Inr blobs \<Rightarrow> pdf_blobs_of blobs = [])
        \<longrightarrow> run_events (process_all_pdfs_from_blob self w) = [])"
proof -
  have run: "let out = process_all_pdfs_from_blob self w; pdfs = pdf_blobs_of all_blobs in
        run_events out = paced (Sleep 3) (map (\<lambda>b. Attempt (name b)) pdfs)
        \<and> length (filter (\<lambda>e. e = Sleep 3) (run_events out)) = length pdfs - 1
        \<and> last (run_events out) = Attempt (name (last pdfs))
        \<and> (length pdfs = 1 \<longrightarrow> run_events out = [Attempt (name (hd pdfs))])"
    if h: "list_blobs w (pdf_container self) = Inr all_blobs" "pdf_blobs_of all_blobs \<noteq> []"
  proof -
    let ?pdfs = "pdf_blobs_of all_blobs"
    let ?out = "process_all_pdfs_from_blob self w"
    have ev: "run_events ?out = paced (Sleep 3) (map (\<lambda>b. Attempt (name b)) ?pdfs)"
      by (rule run_documents(2) [OF h])
    have cnt: "length (filter (\<lambda>e. e = Sleep 3) (run_events ?out)) = length ?pdfs - 1"
      unfolding ev by (rule paced_sleeps) simp
    have lst: "last (run_events ?out) = Attempt (name (last ?pdfs))"
      unfolding ev using h(2) by (simp add: paced_last last_map)
    have one: "run_events ?out = [Attempt (name (hd ?pdfs))]" if "length ?pdfs = 1"
    proof -
      have "\<exists>b. ?pdfs = [b]" using that by (simp add: length_Suc_conv)
      then obtain b where "?pdfs = [b]" by blast
      then show ?thesis unfolding ev by simp
    qed
    show ?thesis unfolding Let_def using ev cnt lst one by blast
  qed
  have none: "run_events (process_all_pdfs_from_blob self w) = []"
    if "case list_blobs w (pdf_container self) of Inl e \<Rightarrow> True | Inr blobs \<Rightarrow> pdf_blobs_of blobs = []"
    using that by (simp add: run_no_documents)
  show ?thesis using run run_sleeps_3 none by blast
qed

theorem pacing_between_documents_witness:
  "pdf_blobs_of [\<lparr>name = cps ''a.pdf'', blob_size = 1\<rparr>, \<lparr>name = cps ''b.pdf'', blob_size = 1\<rparr>] = [\<lparr>name = cps ''a.pdf'', blob_size = 1\<rparr>, \<lparr>name = cps ''b.pdf'', blob_size = 1\<rparr>]
   \<and> run_events (process_all_pdfs_from_blob \<lparr>pdf_container = cps ''healthcare-pdfs'', json_container = cps ''healthcare-json''\<rparr> \<lparr>list_blobs = (\<lambda>c. Inr [\<lparr>name = cps ''a.pdf'', blob_size = 1\<rparr>, \<lparr>name = cps ''b.pdf'', blob_size = 1\<rparr>]),
        analyze_document = (\<lambda>c b. Inr \<lparr>result_pages = None, result_content = [], result_paragraphs = None, result_tables = None\<rparr>),
        upload_blob = (\<lambda>c n j. None), utcnow = (\<lambda>i. cps ''t''), utcnow_stamp = cps ''s''\<rparr>)
       = [Attempt (cps ''a.pdf''), Sleep 3, Attempt (cps ''b.pdf'')]
   \<and> length (filter (\<lambda>e. e = Sleep 3) (run_events (process_all_pdfs_from_blob \<lparr>pdf_container = cps ''healthcare-pdfs'', json_container = cps ''healthcare-json''\<rparr> \<lparr>list_blobs = (\<lambda>c. Inr [\<lparr>name = cps ''a.pdf'', blob_size = 1\<rparr>, \<lparr>name = cps ''b.pdf'', blob_size = 1\<rparr>]),
        analyze_document = (\<lambda>c b. Inr \<lparr>result_pages = None, result_content = [], result_paragraphs = None, result_tables = None\<rparr>),
        upload_blob = (\<lambda>c n j. None), utcnow = (\<lambda>i. cps ''t''), utcnow_stamp = cps ''s''\<rparr>))) = 1"
proof -
  let ?self = "\<lparr>pdf_container = cps ''healthcare-pdfs'', json_container = cps ''healthcare-json''\<rparr>"
  let ?w = "\<lparr>list_blobs = (\<lambda>c. Inr [\<lparr>name = cps ''a.pdf'', blob_size = 1\<rparr>, \<lparr>name = cps ''b.pdf'', blob_size = 1\<rparr>]),
        analyze_document = (\<lambda>c b. Inr \<lparr>result_pages = None, result_content = [], result_paragraphs = None, result_tables = None\<rparr>),
        upload_blob = (\<lambda>c n j. None), utcnow = (\<lambda>i. cps ''t''), utcnow_stamp = cps ''s''\<rparr>"
  let ?all = "[\<lparr>name = cps ''a.pdf'', blob_size = 1\<rparr>, \<lparr>name = cps ''b.pdf'', blob_size = 1\<rparr>]"
  let ?out = "process_all_pdfs_from_blob ?self ?w"
  have l: "list_blobs ?w (pdf_container ?self) = Inr ?all" by simp
  have f: "pdf_blobs_of ?all = ?all" by (rule pdf_filter_two)
  then have ne: "pdf_blobs_of ?all \<noteq> []" by simp
  from pacing_between_documents [of ?w ?self ?all] l ne
  have "run_events ?out = paced (Sleep 3) (map (\<lambda>b. Attempt (name b)) (pdf_blobs_of ?all))"
    "length (filter (\<lambda>e. e = Sleep 3) (run_events ?out)) = length (pdf_blobs_of ?all) - 1"
    unfolding Let_def by blast+
  then show ?thesis unfolding f using f by simp
qed

text \<open>
  The delay is the literal 3 of the source: no processor and no world give a run a sleep
  of another length.
\<close>

theorem pacing_delay_not_configurable:
  "\<not> (\<exists>self w d. Sleep d \<in> set (run_events (process_all_pdfs_from_blob self w)) \<and> d \<noteq> 3)"
  using run_sleeps_3 by blast

end
